theory Spec2Isabelle
  imports Main
begin

section \<open>Python values, exceptions and the environment\<close>

text \<open>
  The program is a Flask application (\<^verbatim>\<open>src/app.py\<close>) whose core is a process-wide
  dictionary \<^verbatim>\<open>CACHE\<close> from string keys to pairs of a payload and the time it was
  stored. Python is dynamically typed: the same dictionary holds order lists, result
  bundles and exhibitor rosters, and the records coming from upstream are not validated.
  Values are therefore embedded in one universe of JSON-like Python values. Strings
  are character lists. \<^verbatim>\<open>str.lower\<close> is written out for the strings whose characters
  are all ASCII; on every other string it is a parameter of the environment. Numbers are
  integers (floating point is not modelled). A dictionary is an association list in
  insertion order, looked up with \<open>map_of\<close>.
\<close>

datatype pyval =
    PNone
  | PBool bool
  | PInt int
  | PStr string
  | PList "pyval list"
  | PDict "(string \<times> pyval) list"

text \<open>
  Exceptions (all of them subclasses of \<^verbatim>\<open>Exception\<close>). \<open>KeyError\<close> carries the
  missing key; the others carry their message. The wording of the messages that the
  interpreter produces for \<open>TypeError\<close> and \<open>AttributeError\<close> is immaterial below.
\<close>

datatype exn =
    KeyError string
  | TypeError string
  | AttributeError string
  | Exception string

text \<open>\<^verbatim>\<open>str(e)\<close>: a \<open>KeyError\<close> prints the \<^verbatim>\<open>repr\<close> of its key.\<close>

fun str_exn :: "exn \<Rightarrow> string" where
  "str_exn (KeyError k) = [CHR 0x27] @ k @ [CHR 0x27]"
| "str_exn (TypeError m) = m"
| "str_exn (AttributeError m) = m"
| "str_exn (Exception m) = m"

text \<open>Truth value testing, as in \<^verbatim>\<open>if cached_data:\<close>.\<close>

fun truthy :: "pyval \<Rightarrow> bool" where
  "truthy PNone = False"
| "truthy (PBool b) = b"
| "truthy (PInt n) = (n \<noteq> 0)"
| "truthy (PStr s) = (s \<noteq> [])"
| "truthy (PList xs) = (xs \<noteq> [])"
| "truthy (PDict kvs) = (kvs \<noteq> [])"

text \<open>
  Modelled from the spec: the Record Source \<^verbatim>\<open>abacus_manager.get_orders_data\<close> lives in
  the module \<^verbatim>\<open>abacus_integration\<close>, which is not part of the sources. Its contract
  (spec 4.2) is that a call returns a sequence of zero or more records or fails; the
  guard \<^verbatim>\<open>if orders_data and len(orders_data) > 0\<close> of the caller also allows for
  \<^verbatim>\<open>None\<close>. The records themselves are arbitrary values.
\<close>

datatype fetch_result =
    SourceRaises exn
  | SourceReturnsNone
  | SourceReturns "pyval list"

text \<open>
  The environment of the process: the successive readings of \<^verbatim>\<open>datetime.now()\<close>
  (in microseconds, the resolution of \<^verbatim>\<open>datetime\<close>), the successive outcomes of the
  Record Source, and \<^verbatim>\<open>datetime.isoformat\<close>. The readings are not assumed to be
  monotone: \<^verbatim>\<open>datetime.now()\<close> is the wall clock. The last component is
  \<^verbatim>\<open>str.lower\<close> on the strings that hold a character outside ASCII: there the result
  follows the case mappings of Unicode, which are part of the interpreter and not of the
  sources, so nothing is assumed about it (it need not work character by character).
\<close>

record env =
  clock :: "nat \<Rightarrow> int"
  source :: "nat \<Rightarrow> fetch_result"
  isoformat :: "int \<Rightarrow> string"
  unicode_lower :: "string \<Rightarrow> string"

text \<open>
  The state of the process: the global \<^verbatim>\<open>CACHE\<close>, and how many times the clock and
  the Record Source have been consulted so far.
\<close>

record world =
  CACHE :: "string \<rightharpoonup> pyval \<times> int"
  now_calls :: nat
  fetch_calls :: nat

definition initial_world :: world where
  "initial_world = \<lparr>CACHE = Map.empty, now_calls = 0, fetch_calls = 0\<rparr>"

definition datetime_now :: "env \<Rightarrow> world \<Rightarrow> int \<times> world" where
  "datetime_now e w = (clock e (now_calls w), w\<lparr>now_calls := Suc (now_calls w)\<rparr>)"

section \<open>The cache\<close>

definition CACHE_DURATION :: int where
  "CACHE_DURATION = 120"

text \<open>\<^verbatim>\<open>timedelta(seconds=s)\<close> in microseconds.\<close>

definition timedelta_seconds :: "int \<Rightarrow> int" where
  "timedelta_seconds s = s * 1000000"

text \<open>
  \<^verbatim>\<open>get_from_cache(key, allow_cache=True)\<close>. Absent is \<^verbatim>\<open>None\<close>. The clock is read
  only when the key is in the cache.
\<close>

definition get_from_cache :: "env \<Rightarrow> string \<Rightarrow> bool \<Rightarrow> world \<Rightarrow> pyval \<times> world" where
  "get_from_cache e key allow_cache w =
     (if \<not> allow_cache then (PNone, w)
      else (case CACHE w key of
              None \<Rightarrow> (PNone, w)
            | Some (data, timestamp) \<Rightarrow>
                (case datetime_now e w of (t, w') \<Rightarrow>
                   if t - timestamp < timedelta_seconds CACHE_DURATION
                   then (data, w') else (PNone, w'))))"

definition set_cache :: "env \<Rightarrow> string \<Rightarrow> pyval \<Rightarrow> world \<Rightarrow> world" where
  "set_cache e key data w =
     (case datetime_now e w of (t, w') \<Rightarrow> w'\<lparr>CACHE := (CACHE w')(key \<mapsto> (data, t))\<rparr>)"

definition clear_cache_state :: "world \<Rightarrow> world" where
  "clear_cache_state w = w\<lparr>CACHE := Map.empty\<rparr>"

section \<open>Fetch orchestration\<close>

text \<open>\<^verbatim>\<open>get_mock_orders()\<close>: the fixed fallback set, field by field.\<close>

definition get_mock_orders :: pyval where
  "get_mock_orders = PList [
     PDict [
       (''id'', PStr ''ORD-2025-001''),
       (''booth_number'', PStr ''A-245''),
       (''exhibitor_name'', PStr ''TechFlow Innovations''),
       (''item'', PStr ''Premium Booth Setup Package''),
       (''description'',
          PStr ''Complete booth installation with premium furniture, lighting, and tech setup''),
       (''color'', PStr ''White''),
       (''quantity'', PInt 1),
       (''status'', PStr ''out-for-delivery''),
       (''order_date'', PStr ''June 14, 2025''),
       (''comments'', PStr ''Rush delivery requested''),
       (''section'', PStr ''Section A'')],
     PDict [
       (''id'', PStr ''ORD-2025-002''),
       (''booth_number'', PStr ''A-245''),
       (''exhibitor_name'', PStr ''TechFlow Innovations''),
       (''item'', PStr ''Interactive Display System''),
       (''description'',
          PStr (''75'' @ [CHR 0x22] @
                '' 4K touchscreen display with interactive software and mounting'')),
       (''color'', PStr ''Black''),
       (''quantity'', PInt 1),
       (''status'', PStr ''in-route''),
       (''order_date'', PStr ''June 13, 2025''),
       (''comments'', PStr []),
       (''section'', PStr ''Section A'')],
     PDict [
       (''id'', PStr ''ORD-2025-003''),
       (''booth_number'', PStr ''B-156''),
       (''exhibitor_name'', PStr ''GreenWave Energy''),
       (''item'', PStr ''Marketing Materials Bundle''),
       (''description'',
          PStr ''Banners, brochures, business cards, and promotional items''),
       (''color'', PStr ''Green''),
       (''quantity'', PInt 5),
       (''status'', PStr ''delivered''),
       (''order_date'', PStr ''June 12, 2025''),
       (''comments'', PStr ''Eco-friendly materials requested''),
       (''section'', PStr ''Section B'')],
     PDict [
       (''id'', PStr ''ORD-2025-004''),
       (''booth_number'', PStr ''C-089''),
       (''exhibitor_name'', PStr ''SmartHealth Corp''),
       (''item'', PStr ''Audio-Visual Equipment''),
       (''description'',
          PStr ''Professional sound system, microphones, and presentation equipment''),
       (''color'', PStr ''White''),
       (''quantity'', PInt 1),
       (''status'', PStr ''in-process''),
       (''order_date'', PStr ''June 14, 2025''),
       (''comments'', PStr ''Medical grade equipment required''),
       (''section'', PStr ''Section C'')]]"

text \<open>
  The \<^verbatim>\<open>try\<close> block of \<^verbatim>\<open>load_orders_from_abacus\<close> (lines 60 to 78): one call of
  the Record Source; a result with at least one record is cached and returned, anything
  else raises.
\<close>

definition fetch_orders :: "env \<Rightarrow> world \<Rightarrow> (exn + pyval) \<times> world" where
  "fetch_orders e w =
     (case (source e (fetch_calls w), w\<lparr>fetch_calls := Suc (fetch_calls w)\<rparr>) of
        (SourceRaises x, w1) \<Rightarrow> (Inl x, w1)
      | (SourceReturnsNone, w1) \<Rightarrow> (Inl (Exception ''No data returned from Abacus AI''), w1)
      | (SourceReturns orders_data, w1) \<Rightarrow>
          if orders_data \<noteq> [] \<and> length orders_data > 0
          then (Inr (PList orders_data), set_cache e ''all_orders'' (PList orders_data) w1)
          else (Inl (Exception ''No data returned from Abacus AI''), w1))"

text \<open>The \<^verbatim>\<open>try\<close> block with its \<^verbatim>\<open>except Exception\<close> handler (lines 60 to 87).\<close>

definition fetch_or_mock :: "env \<Rightarrow> world \<Rightarrow> pyval \<times> world" where
  "fetch_or_mock e w =
     (case fetch_orders e w of
        (Inr orders_data, w1) \<Rightarrow> (orders_data, w1)
      | (Inl x, w1) \<Rightarrow> (get_mock_orders, set_cache e ''all_orders'' get_mock_orders w1))"

definition load_orders_from_abacus :: "env \<Rightarrow> bool \<Rightarrow> world \<Rightarrow> pyval \<times> world" where
  "load_orders_from_abacus e force_refresh w =
     (if \<not> force_refresh then
        (case get_from_cache e ''all_orders'' True w of
           (cached_data, w0) \<Rightarrow>
             if truthy cached_data then (cached_data, w0) else fetch_or_mock e w0)
      else fetch_or_mock e w)"

section \<open>Python operations used by the derivations\<close>

text \<open>\<^verbatim>\<open>obj[key]\<close> with a string key: only a dictionary can answer.\<close>

fun py_getitem :: "pyval \<Rightarrow> string \<Rightarrow> exn + pyval" where
  "py_getitem (PDict kvs) k =
     (case map_of kvs k of None \<Rightarrow> Inl (KeyError k) | Some v \<Rightarrow> Inr v)"
| "py_getitem (PStr s) k = Inl (TypeError ''string indices must be integers'')"
| "py_getitem (PList xs) k = Inl (TypeError ''list indices must be integers or slices, not str'')"
| "py_getitem v k = Inl (TypeError ''object is not subscriptable'')"

text \<open>
  \<^verbatim>\<open>str.lower\<close>. On a string of ASCII characters it replaces each of the letters
  \<open>A\<close> to \<open>Z\<close> (codes 65 to 90) by its lower-case letter and leaves the other characters
  as they are. On a string with a character outside ASCII it is what the environment
  says.
\<close>

definition is_ascii :: "char \<Rightarrow> bool" where
  "is_ascii c = ((of_char c :: nat) < 128)"

definition lower_char :: "char \<Rightarrow> char" where
  "lower_char c =
     (let n = (of_char c :: nat) in if 65 \<le> n \<and> n \<le> 90 then char_of (n + 32) else c)"

definition lower :: "env \<Rightarrow> string \<Rightarrow> string" where
  "lower e s = (if list_all is_ascii s then map lower_char s else unicode_lower e s)"

text \<open>\<^verbatim>\<open>obj.lower()\<close>: only strings have the method.\<close>

fun py_lower :: "env \<Rightarrow> pyval \<Rightarrow> exn + string" where
  "py_lower e (PStr s) = Inr (lower e s)"
| "py_lower e v = Inl (AttributeError ''object has no attribute lower'')"

text \<open>
  \<^verbatim>\<open>for x in obj\<close>: the elements of a list, the keys of a dictionary, the characters
  of a string.
\<close>

fun py_iter :: "pyval \<Rightarrow> exn + pyval list" where
  "py_iter (PList xs) = Inr xs"
| "py_iter (PDict kvs) = Inr (map (\<lambda>kv. PStr (fst kv)) kvs)"
| "py_iter (PStr s) = Inr (map (\<lambda>c. PStr [c]) s)"
| "py_iter v = Inl (TypeError ''object is not iterable'')"

fun py_len :: "pyval \<Rightarrow> exn + int" where
  "py_len (PList xs) = Inr (int (length xs))"
| "py_len (PDict kvs) = Inr (int (length kvs))"
| "py_len (PStr s) = Inr (int (length s))"
| "py_len v = Inl (TypeError ''object has no len()'')"

text \<open>
  The list comprehension \<^verbatim>\<open>[x for x in xs if cond(x)]\<close> where the condition may raise:
  the first element on which it raises ends the comprehension with that exception.
\<close>

fun select_where :: "(pyval \<Rightarrow> exn + bool) \<Rightarrow> pyval list \<Rightarrow> exn + pyval list" where
  "select_where cond [] = Inr []"
| "select_where cond (x # xs) =
     (case cond x of
        Inl err \<Rightarrow> Inl err
      | Inr b \<Rightarrow>
          (case select_where cond xs of
             Inl err \<Rightarrow> Inl err
           | Inr ys \<Rightarrow> Inr (if b then x # ys else ys)))"

text \<open>\<^verbatim>\<open>order[field].lower() == wanted.lower()\<close>\<close>

definition field_matches :: "env \<Rightarrow> string \<Rightarrow> string \<Rightarrow> pyval \<Rightarrow> exn + bool" where
  "field_matches e field wanted order =
     (case py_getitem order field of
        Inl err \<Rightarrow> Inl err
      | Inr v \<Rightarrow>
          (case py_lower e v of Inl err \<Rightarrow> Inl err | Inr s \<Rightarrow> Inr (s = lower e wanted)))"

text \<open>\<^verbatim>\<open>o['status'] == wanted\<close>\<close>

definition status_is :: "string \<Rightarrow> pyval \<Rightarrow> exn + bool" where
  "status_is wanted order =
     (case py_getitem order ''status'' of
        Inl err \<Rightarrow> Inl err
      | Inr v \<Rightarrow> Inr (v = PStr wanted))"

section \<open>Query layer\<close>

text \<open>
  What a route handler returns: the value given to \<^verbatim>\<open>jsonify\<close> and the HTTP status
  (200 unless the handler says otherwise). The request's \<^verbatim>\<open>force_refresh\<close> flag is the
  handler's Boolean argument: it is the value of the comparison
  \<^verbatim>\<open>request.args.get('force_refresh', 'false').lower() == 'true'\<close>.
\<close>

record response =
  body :: pyval
  status :: nat

definition get_all_orders :: "env \<Rightarrow> bool \<Rightarrow> world \<Rightarrow> response \<times> world" where
  "get_all_orders e force_refresh w =
     (case load_orders_from_abacus e force_refresh w of
        (orders, w1) \<Rightarrow> (\<lparr>body = orders, status = 200\<rparr>, w1))"

text \<open>
  The two filtered views, \<^verbatim>\<open>get_orders_by_booth\<close> and \<^verbatim>\<open>get_orders_by_exhibitor\<close>, are
  the same code up to three strings: the key of the bundle that repeats the request
  (\<open>label\<close>), the field of the order that is compared (\<open>field\<close>) and the prefix of the
  cache key. \<open>derive_bundle\<close> is the \<^verbatim>\<open>try\<close> block (lines 188 to 212 and 237 to 261).
\<close>

definition derive_bundle ::
  "env \<Rightarrow> string \<Rightarrow> string \<Rightarrow> string \<Rightarrow> string \<Rightarrow> bool \<Rightarrow> world \<Rightarrow> (exn + pyval) \<times> world" where
  "derive_bundle e label field cache_key wanted force_refresh w =
     (case load_orders_from_abacus e force_refresh w of
        (all_orders, w1) \<Rightarrow>
          (case py_iter all_orders of
             Inl err \<Rightarrow> (Inl err, w1)
           | Inr orders \<Rightarrow>
               (case select_where (field_matches e field wanted) orders of
                  Inl err \<Rightarrow> (Inl err, w1)
                | Inr matching \<Rightarrow>
                    (case select_where (status_is ''delivered'') matching of
                       Inl err \<Rightarrow> (Inl err, w1)
                     | Inr delivered \<Rightarrow>
                         (case datetime_now e w1 of
                            (t, w2) \<Rightarrow>
                              (let result = PDict [
                                     (label, PStr wanted),
                                     (''orders'', PList matching),
                                     (''total_orders'', PInt (int (length matching))),
                                     (''delivered_orders'', PInt (int (length delivered))),
                                     (''last_updated'', PStr (isoformat e t)),
                                     (''force_refreshed'', PBool force_refresh)]
                               in (Inr result, set_cache e cache_key result w2)))))))"

text \<open>The \<^verbatim>\<open>try\<close> block with its handler (lines 188 to 223 and 237 to 272).\<close>

definition bundle_or_error ::
  "env \<Rightarrow> string \<Rightarrow> string \<Rightarrow> string \<Rightarrow> string \<Rightarrow> bool \<Rightarrow> world \<Rightarrow> response \<times> world" where
  "bundle_or_error e label field cache_key wanted force_refresh w =
     (case derive_bundle e label field cache_key wanted force_refresh w of
        (Inr result, w1) \<Rightarrow> (\<lparr>body = result, status = 200\<rparr>, w1)
      | (Inl err, w1) \<Rightarrow>
          (case datetime_now e w1 of
             (t, w2) \<Rightarrow>
               (\<lparr>body = PDict [
                    (label, PStr wanted),
                    (''orders'', PList []),
                    (''total_orders'', PInt 0),
                    (''delivered_orders'', PInt 0),
                    (''last_updated'', PStr (isoformat e t)),
                    (''error'', PStr (str_exn err))],
                  status = 500\<rparr>, w2)))"

definition filtered_view ::
  "env \<Rightarrow> string \<Rightarrow> string \<Rightarrow> string \<Rightarrow> string \<Rightarrow> bool \<Rightarrow> world \<Rightarrow> response \<times> world" where
  "filtered_view e label field cache_key wanted force_refresh w =
     (if \<not> force_refresh then
        (case get_from_cache e cache_key True w of
           (cached_data, w0) \<Rightarrow>
             if truthy cached_data then (\<lparr>body = cached_data, status = 200\<rparr>, w0)
             else bundle_or_error e label field cache_key wanted force_refresh w0)
      else bundle_or_error e label field cache_key wanted force_refresh w)"

definition get_orders_by_booth :: "env \<Rightarrow> string \<Rightarrow> bool \<Rightarrow> world \<Rightarrow> response \<times> world" where
  "get_orders_by_booth e booth_number force_refresh w =
     filtered_view e ''booth'' ''booth_number'' (''booth_'' @ booth_number)
       booth_number force_refresh w"

definition get_orders_by_exhibitor :: "env \<Rightarrow> string \<Rightarrow> bool \<Rightarrow> world \<Rightarrow> response \<times> world" where
  "get_orders_by_exhibitor e exhibitor_name force_refresh w =
     filtered_view e ''exhibitor'' ''exhibitor_name'' (''exhibitor_'' @ exhibitor_name)
       exhibitor_name force_refresh w"

subsection \<open>Exhibitor roster\<close>

text \<open>
  The values of \<^verbatim>\<open>exhibitors_dict\<close>. The dictionary itself is an association list in
  insertion order, as \<^verbatim>\<open>list(exhibitors_dict.values())\<close> reads it.
\<close>

record summary =
  ex_name :: pyval
  ex_booth :: pyval
  ex_total_orders :: int
  ex_delivered_orders :: int

text \<open>
  A dictionary key must be hashable, and keys are compared with \<^verbatim>\<open>==\<close>, under which
  \<^verbatim>\<open>True\<close> is \<^verbatim>\<open>1\<close> and \<^verbatim>\<open>False\<close> is \<^verbatim>\<open>0\<close>.
\<close>

fun dict_key :: "pyval \<Rightarrow> exn + pyval" where
  "dict_key (PList xs) = Inl (TypeError ''unhashable type: list'')"
| "dict_key (PDict kvs) = Inl (TypeError ''unhashable type: dict'')"
| "dict_key (PBool b) = Inr (PInt (if b then 1 else 0))"
| "dict_key v = Inr v"

fun update_entry :: "'k \<Rightarrow> ('v \<Rightarrow> 'v) \<Rightarrow> ('k \<times> 'v) list \<Rightarrow> ('k \<times> 'v) list" where
  "update_entry k f [] = []"
| "update_entry k f (kv # rest) =
     (if fst kv = k then (fst kv, f (snd kv)) # rest else kv # update_entry k f rest)"

text \<open>One round of the loop of lines 293 to 307.\<close>

definition roster_step ::
  "(pyval \<times> summary) list \<Rightarrow> pyval \<Rightarrow> exn + (pyval \<times> summary) list" where
  "roster_step exhibitors_dict order =
     (case py_getitem order ''exhibitor_name'' of
        Inl err \<Rightarrow> Inl err
      | Inr exhibitor_name \<Rightarrow>
          (case py_getitem order ''booth_number'' of
             Inl err \<Rightarrow> Inl err
           | Inr booth_number \<Rightarrow>
               (case dict_key exhibitor_name of
                  Inl err \<Rightarrow> Inl err
                | Inr k \<Rightarrow>
                    (let d1 = (if map_of exhibitors_dict k = None
                               then exhibitors_dict @
                                 [(k, \<lparr>ex_name = exhibitor_name, ex_booth = booth_number,
                                       ex_total_orders = 0, ex_delivered_orders = 0\<rparr>)]
                               else exhibitors_dict);
                         d2 = update_entry k
                                (\<lambda>s. s\<lparr>ex_total_orders := ex_total_orders s + 1\<rparr>) d1
                     in (case py_getitem order ''status'' of
                           Inl err \<Rightarrow> Inl err
                         | Inr st \<Rightarrow>
                             Inr (if st = PStr ''delivered''
                                  then update_entry k
                                         (\<lambda>s. s\<lparr>ex_delivered_orders :=
                                                   ex_delivered_orders s + 1\<rparr>) d2
                                  else d2))))))"

fun roster_loop ::
  "(pyval \<times> summary) list \<Rightarrow> pyval list \<Rightarrow> exn + (pyval \<times> summary) list" where
  "roster_loop exhibitors_dict [] = Inr exhibitors_dict"
| "roster_loop exhibitors_dict (order # rest) =
     (case roster_step exhibitors_dict order of
        Inl err \<Rightarrow> Inl err
      | Inr d \<Rightarrow> roster_loop d rest)"

definition summary_json :: "summary \<Rightarrow> pyval" where
  "summary_json s = PDict [
     (''name'', ex_name s),
     (''booth'', ex_booth s),
     (''total_orders'', PInt (ex_total_orders s)),
     (''delivered_orders'', PInt (ex_delivered_orders s))]"

text \<open>The loop and \<^verbatim>\<open>list(exhibitors_dict.values())\<close>, on the orders alone.\<close>

definition roster_of :: "pyval \<Rightarrow> exn + pyval" where
  "roster_of orders =
     (case py_iter orders of
        Inl err \<Rightarrow> Inl err
      | Inr os \<Rightarrow>
          (case roster_loop [] os of
             Inl err \<Rightarrow> Inl err
           | Inr d \<Rightarrow> Inr (PList (map (\<lambda>kv. summary_json (snd kv)) d))))"

text \<open>The \<^verbatim>\<open>try\<close> block of \<^verbatim>\<open>get_exhibitors\<close> (lines 286 to 311).\<close>

definition derive_roster :: "env \<Rightarrow> bool \<Rightarrow> world \<Rightarrow> (exn + pyval) \<times> world" where
  "derive_roster e force_refresh w =
     (case load_orders_from_abacus e force_refresh w of
        (orders, w1) \<Rightarrow>
          (case roster_of orders of
             Inl err \<Rightarrow> (Inl err, w1)
           | Inr exhibitors \<Rightarrow> (Inr exhibitors, set_cache e ''exhibitors'' exhibitors w1)))"

text \<open>The \<^verbatim>\<open>try\<close> block with its handler (lines 286 to 315).\<close>

definition roster_or_empty :: "env \<Rightarrow> bool \<Rightarrow> world \<Rightarrow> response \<times> world" where
  "roster_or_empty e force_refresh w =
     (case derive_roster e force_refresh w of
        (Inr exhibitors, w1) \<Rightarrow> (\<lparr>body = exhibitors, status = 200\<rparr>, w1)
      | (Inl err, w1) \<Rightarrow> (\<lparr>body = PList [], status = 500\<rparr>, w1))"

definition get_exhibitors :: "env \<Rightarrow> bool \<Rightarrow> world \<Rightarrow> response \<times> world" where
  "get_exhibitors e force_refresh w =
     (if \<not> force_refresh then
        (case get_from_cache e ''exhibitors'' True w of
           (cached_data, w0) \<Rightarrow>
             if truthy cached_data then (\<lparr>body = cached_data, status = 200\<rparr>, w0)
             else roster_or_empty e force_refresh w0)
      else roster_or_empty e force_refresh w)"

subsection \<open>Statistics\<close>

text \<open>\<^verbatim>\<open>len([o for o in orders if o['status'] == wanted])\<close>\<close>

definition count_status :: "string \<Rightarrow> pyval \<Rightarrow> exn + int" where
  "count_status wanted orders =
     (case py_iter orders of
        Inl err \<Rightarrow> Inl err
      | Inr os \<Rightarrow>
          (case select_where (status_is wanted) os of
             Inl err \<Rightarrow> Inl err
           | Inr ms \<Rightarrow> Inr (int (length ms))))"

definition exn_bind :: "exn + 'a \<Rightarrow> ('a \<Rightarrow> exn + 'b) \<Rightarrow> exn + 'b" where
  "exn_bind r f = (case r of Inl err \<Rightarrow> Inl err | Inr v \<Rightarrow> f v)"

text \<open>The entries of the \<^verbatim>\<open>stats\<close> dictionary before \<^verbatim>\<open>last_updated\<close>, in the order in
  which the dictionary display evaluates them (lines 324 to 329).\<close>

definition stats_counts :: "pyval \<Rightarrow> exn + (string \<times> pyval) list" where
  "stats_counts orders =
     exn_bind (py_len orders) (\<lambda>total.
     exn_bind (count_status ''delivered'' orders) (\<lambda>delivered.
     exn_bind (count_status ''in-process'' orders) (\<lambda>in_process.
     exn_bind (count_status ''in-route'' orders) (\<lambda>in_route.
     exn_bind (count_status ''out-for-delivery'' orders) (\<lambda>out_for_delivery.
     exn_bind (count_status ''cancelled'' orders) (\<lambda>cancelled.
       Inr [(''total_orders'', PInt total),
            (''delivered'', PInt delivered),
            (''in_process'', PInt in_process),
            (''in_route'', PInt in_route),
            (''out_for_delivery'', PInt out_for_delivery),
            (''cancelled'', PInt cancelled)]))))))"

text \<open>\<^verbatim>\<open>get_stats\<close> has no handler: an exception of the derivation leaves the function.\<close>

definition get_stats :: "env \<Rightarrow> bool \<Rightarrow> world \<Rightarrow> (exn + response) \<times> world" where
  "get_stats e force_refresh w =
     (case load_orders_from_abacus e force_refresh w of
        (orders, w1) \<Rightarrow>
          (case stats_counts orders of
             Inl err \<Rightarrow> (Inl err, w1)
           | Inr counts \<Rightarrow>
               (case datetime_now e w1 of
                  (t, w2) \<Rightarrow>
                    (Inr \<lparr>body = PDict (counts @ [(''last_updated'', PStr (isoformat e t))]),
                          status = 200\<rparr>, w2))))"

section \<open>The states the process can reach\<close>

text \<open>
  The process starts with an empty cache and serves requests one after the other.
  \<^verbatim>\<open>health_check\<close> and \<^verbatim>\<open>abacus_status\<close> read the clock once and leave the cache
  alone; \<^verbatim>\<open>clear_cache\<close> empties it.
\<close>

inductive reachable :: "env \<Rightarrow> world \<Rightarrow> bool" for e :: env where
  start: "reachable e initial_world"
| tick: "reachable e w \<Longrightarrow> reachable e (snd (datetime_now e w))"
| all_orders: "reachable e w \<Longrightarrow> reachable e (snd (get_all_orders e fr w))"
| by_booth: "reachable e w \<Longrightarrow> reachable e (snd (get_orders_by_booth e b fr w))"
| by_exhibitor: "reachable e w \<Longrightarrow> reachable e (snd (get_orders_by_exhibitor e x fr w))"
| exhibitors: "reachable e w \<Longrightarrow> reachable e (snd (get_exhibitors e fr w))"
| stats: "reachable e w \<Longrightarrow> reachable e (snd (get_stats e fr w))"
| clear: "reachable e w \<Longrightarrow> reachable e (clear_cache_state w)"

section \<open>Sample environments\<close>

text \<open>
  Concrete environments on which the theorems below are exercised. In all of them one
  second passes between two readings of the clock, except in \<open>env_slow\<close>, where 120
  seconds pass. Their strings are ASCII; for the sake of a total function \<open>unicode_lower\<close>
  is the identity in them.
\<close>

definition sample_orders :: "pyval list" where
  "sample_orders = [
     PDict [(''id'', PStr ''X-1''), (''booth_number'', PStr ''a-245''),
            (''exhibitor_name'', PStr ''Acme''), (''status'', PStr ''delivered'')],
     PDict [(''id'', PStr ''X-2''), (''booth_number'', PStr ''B-1''),
            (''exhibitor_name'', PStr ''Bolt''), (''status'', PStr ''in-route'')]]"

definition env_down :: env where
  "env_down = \<lparr>clock = (\<lambda>n. int n * 1000000),
                source = (\<lambda>n. SourceRaises (Exception ''unreachable'')),
                isoformat = (\<lambda>t. ''now''),
                unicode_lower = (\<lambda>s. s)\<rparr>"

definition env_slow :: env where
  "env_slow = \<lparr>clock = (\<lambda>n. int n * 120000000),
                source = (\<lambda>n. SourceRaises (Exception ''unreachable'')),
                isoformat = (\<lambda>t. ''now''),
                unicode_lower = (\<lambda>s. s)\<rparr>"

definition env_up :: env where
  "env_up = \<lparr>clock = (\<lambda>n. int n * 1000000),
              source = (\<lambda>n. SourceReturns sample_orders),
              isoformat = (\<lambda>t. ''now''),
              unicode_lower = (\<lambda>s. s)\<rparr>"

definition env_malformed :: env where
  "env_malformed = \<lparr>clock = (\<lambda>n. int n * 1000000),
                     source = (\<lambda>n. SourceReturns [PDict [(''id'', PStr ''X-1'')]]),
                     isoformat = (\<lambda>t. ''now''),
                     unicode_lower = (\<lambda>s. s)\<rparr>"

section \<open>Notions used in the statements\<close>

text \<open>
  An outcome of the Record Source that the orchestration treats as a failure: an
  exception, \<^verbatim>\<open>None\<close>, or zero records.
\<close>

definition source_failed :: "fetch_result \<Rightarrow> bool" where
  "source_failed r = (case r of SourceReturns xs \<Rightarrow> xs = [] | _ \<Rightarrow> True)"

text \<open>What the orchestration makes of one outcome of the Record Source.\<close>

definition orders_from :: "fetch_result \<Rightarrow> pyval" where
  "orders_from r =
     (case r of
        SourceReturns xs \<Rightarrow> if xs = [] then get_mock_orders else PList xs
      | _ \<Rightarrow> get_mock_orders)"

text \<open>A usable order sequence: a list with at least one element.\<close>

definition usable :: "pyval \<Rightarrow> bool" where
  "usable v = (case v of PList xs \<Rightarrow> xs \<noteq> [] | _ \<Rightarrow> False)"

text \<open>The non-empty results among the first \<open>k\<close> outcomes of the Record Source.\<close>

definition upstream_results :: "env \<Rightarrow> nat \<Rightarrow> pyval list" where
  "upstream_results e k =
     concat (map (\<lambda>n. case source e n of
                         SourceReturns xs \<Rightarrow> if xs = [] then [] else [PList xs]
                       | _ \<Rightarrow> []) [0..<k])"

text \<open>
  The entry of the cache under \<^verbatim>\<open>"all_orders"\<close>, if there is one, holds the mock set or
  a non-empty result that the Record Source has returned so far.
\<close>

definition all_orders_inv :: "env \<Rightarrow> world \<Rightarrow> bool" where
  "all_orders_inv e w =
     (case CACHE w ''all_orders'' of
        None \<Rightarrow> True
      | Some (v, t) \<Rightarrow> v = get_mock_orders \<or> v \<in> set (upstream_results e (fetch_calls w)))"

text \<open>
  Whether a request is answered from the entry under \<open>key\<close> (the lookup of lines 182 to
  185, 231 to 234 and 280 to 283), and the state in which the \<^verbatim>\<open>try\<close> block starts
  when it is not.
\<close>

definition answered_from_cache :: "env \<Rightarrow> string \<Rightarrow> bool \<Rightarrow> world \<Rightarrow> bool" where
  "answered_from_cache e key force_refresh w =
     (\<not> force_refresh \<and> truthy (fst (get_from_cache e key True w)))"

definition before_derivation :: "env \<Rightarrow> string \<Rightarrow> bool \<Rightarrow> world \<Rightarrow> world" where
  "before_derivation e key force_refresh w =
     (if force_refresh then w else snd (get_from_cache e key True w))"

text \<open>An order whose \<^verbatim>\<open>status\<close> field is the given string.\<close>

definition has_status :: "string \<Rightarrow> pyval \<Rightarrow> bool" where
  "has_status wanted order = (py_getitem order ''status'' = Inr (PStr wanted))"


subsection \<open>The roster, in the words of the specification\<close>











section \<open>Properties of the cache\<close>

lemma set_cache_CACHE:
  "CACHE (set_cache e key data w) = (CACHE w)(key \<mapsto> (data, clock e (now_calls w)))"
  by (simp add: set_cache_def datetime_now_def)

lemma set_cache_now_calls: "now_calls (set_cache e key data w) = Suc (now_calls w)"
  by (simp add: set_cache_def datetime_now_def)

lemma set_cache_fetch_calls: "fetch_calls (set_cache e key data w) = fetch_calls w"
  by (simp add: set_cache_def datetime_now_def)

lemma get_from_cache_value:
  "fst (get_from_cache e key True w) =
     (case CACHE w key of
        None \<Rightarrow> PNone
      | Some (data, timestamp) \<Rightarrow>
          if clock e (now_calls w) - timestamp < 120 * 1000000 then data else PNone)"
  by (simp add: get_from_cache_def datetime_now_def timedelta_seconds_def CACHE_DURATION_def
      split: option.splits prod.splits)

lemma get_from_cache_CACHE: "CACHE (snd (get_from_cache e key a w)) = CACHE w"
  by (simp add: get_from_cache_def datetime_now_def split: option.splits prod.splits)

lemma get_from_cache_fetch_calls:
  "fetch_calls (snd (get_from_cache e key a w)) = fetch_calls w"
  by (simp add: get_from_cache_def datetime_now_def split: option.splits prod.splits)

text \<open>
  C2. The contract of the cache read. With bypass (that is \<open>allow_cache = False\<close>) the
  result is absent whatever the cache holds, and the state is left as it was. Without
  bypass, the result is the stored value exactly when the key has an entry whose age, at
  the clock reading of this call, is below 120 seconds, and absent otherwise. Hence a
  read right after \<open>set_cache key v\<close> returns \<open>v\<close> when less than 120 seconds lie
  between the two clock readings, and absent once 120 seconds or more have elapsed.
\<close>

theorem get_from_cache_contract:
  "get_from_cache e key False w = (PNone, w) \<and>
   fst (get_from_cache e key True w) =
     (case CACHE w key of
        None \<Rightarrow> PNone
      | Some (data, timestamp) \<Rightarrow>
          if clock e (now_calls w) - timestamp < 120 * 1000000 then data else PNone) \<and>
   (clock e (Suc (now_calls w)) - clock e (now_calls w) < 120 * 1000000 \<longrightarrow>
      fst (get_from_cache e key True (set_cache e key v w)) = v) \<and>
   (clock e (Suc (now_calls w)) - clock e (now_calls w) \<ge> 120 * 1000000 \<longrightarrow>
      fst (get_from_cache e key True (set_cache e key v w)) = PNone)"
proof (intro conjI impI)
  show "get_from_cache e key False w = (PNone, w)"
    by (simp add: get_from_cache_def)
  show "fst (get_from_cache e key True w) =
     (case CACHE w key of
        None \<Rightarrow> PNone
      | Some (data, timestamp) \<Rightarrow>
          if clock e (now_calls w) - timestamp < 120 * 1000000 then data else PNone)"
    by (rule get_from_cache_value)
  show "fst (get_from_cache e key True (set_cache e key v w)) = v"
    if "clock e (Suc (now_calls w)) - clock e (now_calls w) < 120 * 1000000"
    using that by (simp add: get_from_cache_value set_cache_CACHE set_cache_now_calls)
  show "fst (get_from_cache e key True (set_cache e key v w)) = PNone"
    if "clock e (Suc (now_calls w)) - clock e (now_calls w) \<ge> 120 * 1000000"
    using that by (simp add: get_from_cache_value set_cache_CACHE set_cache_now_calls)
qed

text \<open>
  On the sample clocks: one second after the write the value is read back, 120 seconds
  after the write it is gone.
\<close>

theorem get_from_cache_contract_witness:
  "clock env_down (Suc (now_calls initial_world)) - clock env_down (now_calls initial_world)
     < 120 * 1000000 \<and>
   fst (get_from_cache env_down ''k'' True (set_cache env_down ''k'' (PInt 7) initial_world))
     = PInt 7 \<and>
   clock env_slow (Suc (now_calls initial_world)) - clock env_slow (now_calls initial_world)
     \<ge> 120 * 1000000 \<and>
   fst (get_from_cache env_slow ''k'' True (set_cache env_slow ''k'' (PInt 7) initial_world))
     = PNone"
  using get_from_cache_contract [of env_down "''k''" initial_world "PInt 7"]
    get_from_cache_contract [of env_slow "''k''" initial_world "PInt 7"]
  by (simp add: env_down_def env_slow_def initial_world_def)

section \<open>Properties of the fetch orchestration\<close>

lemma truthy_mock: "truthy get_mock_orders"
  by (simp add: get_mock_orders_def)

lemma usable_mock: "usable get_mock_orders"
  by (simp add: get_mock_orders_def usable_def)

lemma usable_orders_from: "usable (orders_from r)"
proof (cases r)
  case (SourceReturns xs)
  then show ?thesis
    using usable_mock by (cases xs) (simp_all add: orders_from_def usable_def)
qed (simp_all add: orders_from_def usable_mock)

lemma orders_from_failed: "source_failed r \<Longrightarrow> orders_from r = get_mock_orders"
  by (simp add: orders_from_def source_failed_def split: fetch_result.splits)

lemma fetch_or_mock_fst: "fst (fetch_or_mock e w) = orders_from (source e (fetch_calls w))"
  by (simp add: fetch_or_mock_def fetch_orders_def orders_from_def split: fetch_result.splits)

lemma fetch_or_mock_CACHE:
  "CACHE (snd (fetch_or_mock e w)) =
     (CACHE w)(''all_orders'' \<mapsto>
        (orders_from (source e (fetch_calls w)), clock e (now_calls w)))"
  by (simp add: fetch_or_mock_def fetch_orders_def orders_from_def set_cache_CACHE
      split: fetch_result.splits)

lemma fetch_or_mock_fetch_calls: "fetch_calls (snd (fetch_or_mock e w)) = Suc (fetch_calls w)"
  by (simp add: fetch_or_mock_def fetch_orders_def set_cache_fetch_calls
      split: fetch_result.splits)

lemma fetch_or_mock_now_calls: "now_calls (snd (fetch_or_mock e w)) = Suc (now_calls w)"
  by (simp add: fetch_or_mock_def fetch_orders_def set_cache_now_calls
      split: fetch_result.splits)

lemma get_from_cache_now_calls:
  "now_calls (snd (get_from_cache e key a w)) =
     (if a \<and> CACHE w key \<noteq> None then Suc (now_calls w) else now_calls w)"
  by (auto simp add: get_from_cache_def datetime_now_def split: option.splits prod.splits)

text \<open>The two ways through \<open>load_orders_from_abacus\<close>.\<close>

lemma load_hit:
  "\<not> fr \<Longrightarrow> truthy (fst (get_from_cache e ''all_orders'' True w)) \<Longrightarrow>
     load_orders_from_abacus e fr w = get_from_cache e ''all_orders'' True w"
  by (cases "get_from_cache e ''all_orders'' True w") (simp add: load_orders_from_abacus_def)

lemma load_miss:
  "fr \<or> \<not> truthy (fst (get_from_cache e ''all_orders'' True w)) \<Longrightarrow>
     load_orders_from_abacus e fr w =
       fetch_or_mock e (if fr then w else snd (get_from_cache e ''all_orders'' True w))"
  by (cases "get_from_cache e ''all_orders'' True w") (auto simp add: load_orders_from_abacus_def)

lemma upstream_results_Suc:
  "set (upstream_results e k) \<subseteq> set (upstream_results e (Suc k))"
  by (auto simp add: upstream_results_def)

lemma orders_from_cases:
  "orders_from (source e k) = get_mock_orders \<or>
   orders_from (source e k) \<in> set (upstream_results e (Suc k))"
  by (auto simp add: orders_from_def upstream_results_def split: fetch_result.splits)

lemma usable_upstream: "v \<in> set (upstream_results e k) \<Longrightarrow> usable v"
  by (auto simp add: upstream_results_def usable_def split: fetch_result.splits if_splits)

lemma all_orders_inv_cong:
  "CACHE w' ''all_orders'' = CACHE w ''all_orders'' \<Longrightarrow> fetch_calls w' = fetch_calls w \<Longrightarrow>
     all_orders_inv e w' = all_orders_inv e w"
  by (simp add: all_orders_inv_def split: option.splits)

lemma inv_get_from_cache:
  "all_orders_inv e (snd (get_from_cache e key a w)) = all_orders_inv e w"
  by (rule all_orders_inv_cong) (simp_all add: get_from_cache_CACHE get_from_cache_fetch_calls)

lemma inv_datetime_now: "all_orders_inv e (snd (datetime_now e w)) = all_orders_inv e w"
  by (rule all_orders_inv_cong) (simp_all add: datetime_now_def)

lemma inv_set_cache_other:
  "key \<noteq> ''all_orders'' \<Longrightarrow> all_orders_inv e (set_cache e key v w) = all_orders_inv e w"
  by (rule all_orders_inv_cong) (simp_all add: set_cache_CACHE set_cache_fetch_calls)

lemma inv_fetch_or_mock: "all_orders_inv e (snd (fetch_or_mock e w))"
  using orders_from_cases [of e "fetch_calls w"]
  by (simp add: all_orders_inv_def fetch_or_mock_CACHE fetch_or_mock_fetch_calls)

lemma inv_load:
  "all_orders_inv e w \<Longrightarrow> all_orders_inv e (snd (load_orders_from_abacus e fr w))"
  by (cases "fr \<or> \<not> truthy (fst (get_from_cache e ''all_orders'' True w))")
    (simp_all add: load_miss load_hit inv_fetch_or_mock inv_get_from_cache)

lemma inv_cached_usable:
  "all_orders_inv e w \<Longrightarrow> truthy (fst (get_from_cache e ''all_orders'' True w)) \<Longrightarrow>
     usable (fst (get_from_cache e ''all_orders'' True w))"
  by (auto simp add: all_orders_inv_def get_from_cache_value usable_mock
      split: option.splits if_splits dest: usable_upstream)

lemma load_usable:
  "all_orders_inv e w \<Longrightarrow> usable (fst (load_orders_from_abacus e fr w))"
  by (cases "fr \<or> \<not> truthy (fst (get_from_cache e ''all_orders'' True w))")
    (simp_all add: load_miss load_hit fetch_or_mock_fst usable_orders_from inv_cached_usable)

section \<open>An invariant of the reachable states\<close>

lemma inv_derive_bundle:
  assumes "cache_key \<noteq> ''all_orders''" and "all_orders_inv e w"
  shows "all_orders_inv e (snd (derive_bundle e label field cache_key wanted fr w))"
proof -
  obtain all_orders w1 where l: "load_orders_from_abacus e fr w = (all_orders, w1)"
    by (cases "load_orders_from_abacus e fr w")
  have w1: "all_orders_inv e w1"
    using inv_load [OF assms(2), of fr] l by simp
  show ?thesis
    using w1 assms(1) inv_datetime_now [of e w1]
    by (simp add: derive_bundle_def l inv_set_cache_other Let_def case_prod_unfold
        split: sum.splits)
qed

lemma inv_bundle_or_error:
  assumes "cache_key \<noteq> ''all_orders''" and "all_orders_inv e w"
  shows "all_orders_inv e (snd (bundle_or_error e label field cache_key wanted fr w))"
proof -
  obtain r w1 where d: "derive_bundle e label field cache_key wanted fr w = (r, w1)"
    by (cases "derive_bundle e label field cache_key wanted fr w")
  have w1: "all_orders_inv e w1"
    using inv_derive_bundle [OF assms, of label field wanted fr] d by simp
  show ?thesis
    using w1 inv_datetime_now [of e w1]
    by (cases r) (simp_all add: bundle_or_error_def d case_prod_unfold)
qed

lemma inv_filtered_view:
  assumes "cache_key \<noteq> ''all_orders''" and "all_orders_inv e w"
  shows "all_orders_inv e (snd (filtered_view e label field cache_key wanted fr w))"
proof -
  obtain c w0 where g: "get_from_cache e cache_key True w = (c, w0)"
    by (cases "get_from_cache e cache_key True w")
  have w0: "all_orders_inv e w0"
    using inv_get_from_cache [of e cache_key True w] assms(2) g by simp
  show ?thesis
    using w0 assms inv_bundle_or_error [OF assms(1)]
    by (simp add: filtered_view_def g)
qed

lemma inv_roster_or_empty:
  assumes "all_orders_inv e w"
  shows "all_orders_inv e (snd (roster_or_empty e fr w))"
proof -
  obtain orders w1 where l: "load_orders_from_abacus e fr w = (orders, w1)"
    by (cases "load_orders_from_abacus e fr w")
  have w1: "all_orders_inv e w1"
    using inv_load [OF assms, of fr] l by simp
  show ?thesis
    using w1
    by (simp add: roster_or_empty_def derive_roster_def l inv_set_cache_other
        split: sum.splits)
qed

lemma inv_get_exhibitors:
  assumes "all_orders_inv e w"
  shows "all_orders_inv e (snd (get_exhibitors e fr w))"
proof -
  obtain c w0 where g: "get_from_cache e ''exhibitors'' True w = (c, w0)"
    by (cases "get_from_cache e ''exhibitors'' True w")
  have w0: "all_orders_inv e w0"
    using inv_get_from_cache [of e "''exhibitors''" True w] assms g by simp
  show ?thesis
    using w0 assms inv_roster_or_empty
    by (simp add: get_exhibitors_def g)
qed

lemma inv_get_stats:
  assumes "all_orders_inv e w"
  shows "all_orders_inv e (snd (get_stats e fr w))"
proof -
  obtain orders w1 where l: "load_orders_from_abacus e fr w = (orders, w1)"
    by (cases "load_orders_from_abacus e fr w")
  have w1: "all_orders_inv e w1"
    using inv_load [OF assms, of fr] l by simp
  show ?thesis
    using w1 inv_datetime_now [of e w1]
    by (simp add: get_stats_def l case_prod_unfold split: sum.splits)
qed

lemma inv_get_all_orders:
  "all_orders_inv e w \<Longrightarrow> all_orders_inv e (snd (get_all_orders e fr w))"
  using inv_load [of e w fr] by (simp add: get_all_orders_def case_prod_unfold)

lemma reachable_inv: "reachable e w \<Longrightarrow> all_orders_inv e w"
proof (induction rule: reachable.induct)
  case start
  show ?case by (simp add: all_orders_inv_def initial_world_def)
next
  case (tick w)
  then show ?case by (simp add: inv_datetime_now)
next
  case (all_orders w fr)
  then show ?case by (simp add: inv_get_all_orders)
next
  case (by_booth w b fr)
  then show ?case by (simp add: get_orders_by_booth_def inv_filtered_view)
next
  case (by_exhibitor w x fr)
  then show ?case by (simp add: get_orders_by_exhibitor_def inv_filtered_view)
next
  case (exhibitors w fr)
  then show ?case by (simp add: inv_get_exhibitors)
next
  case (stats w fr)
  then show ?case by (simp add: inv_get_stats)
next
  case (clear w)
  show ?case by (simp add: all_orders_inv_def clear_cache_state_def)
qed

section \<open>The orchestration always answers\<close>

lemma usable_truthy: "usable v \<Longrightarrow> truthy v"
  by (cases v) (simp_all add: usable_def)

lemma fetch_orders_raises:
  "(\<exists>err. fst (fetch_orders e w) = Inl err) = source_failed (source e (fetch_calls w))"
  by (simp add: fetch_orders_def source_failed_def split: fetch_result.splits)

lemma load_truthy: "truthy (fst (load_orders_from_abacus e fr w))"
  by (cases "fr \<or> \<not> truthy (fst (get_from_cache e ''all_orders'' True w))")
    (simp_all add: load_miss load_hit fetch_or_mock_fst usable_orders_from usable_truthy)

lemma load_miss_failed:
  assumes "source_failed (source e (fetch_calls w))"
    and "fr \<or> \<not> truthy (fst (get_from_cache e ''all_orders'' True w))"
  shows "fst (load_orders_from_abacus e fr w) = get_mock_orders"
    and "CACHE (snd (load_orders_from_abacus e fr w)) ''all_orders'' =
           Some (get_mock_orders, clock e (now_calls (snd (load_orders_from_abacus e fr w)) - 1))"
proof -
  let ?w0 = "if fr then w else snd (get_from_cache e ''all_orders'' True w)"
  have l: "load_orders_from_abacus e fr w = fetch_or_mock e ?w0"
    using assms(2) by (rule load_miss)
  have f: "fetch_calls ?w0 = fetch_calls w"
    by (simp add: get_from_cache_fetch_calls)
  show "fst (load_orders_from_abacus e fr w) = get_mock_orders"
    using assms(1) by (simp only: l fetch_or_mock_fst f orders_from_failed)
  show "CACHE (snd (load_orders_from_abacus e fr w)) ''all_orders'' =
          Some (get_mock_orders, clock e (now_calls (snd (load_orders_from_abacus e fr w)) - 1))"
    using assms(1)
    by (simp only: l fetch_or_mock_CACHE fetch_or_mock_now_calls f orders_from_failed) simp
qed

text \<open>
  C1. \<open>load_orders_from_abacus\<close> never hands a failure of the fetch to its caller. Its
  \<open>try\<close> block raises exactly when the Record Source raises, returns \<open>None\<close> or returns
  zero records, and the handler turns every such exception into the mock set. So, for
  either value of \<open>force_refresh\<close>: when the fetch is reached (a forced refresh, or no
  usable entry in the cache) and fails, the function returns the mock set and the cache
  holds that set under \<open>"all_orders"\<close>, stamped with the last clock reading. In all
  cases the returned value is truthy, and in every state the process can reach it is a
  list with at least one element.
\<close>

theorem load_orders_never_propagates:
  "((\<exists>err. fst (fetch_orders e w) = Inl err) = source_failed (source e (fetch_calls w))) \<and>
   (source_failed (source e (fetch_calls w)) \<longrightarrow> fst (fetch_or_mock e w) = get_mock_orders) \<and>
   (source_failed (source e (fetch_calls w)) \<and>
      (fr \<or> \<not> truthy (fst (get_from_cache e ''all_orders'' True w))) \<longrightarrow>
        fst (load_orders_from_abacus e fr w) = get_mock_orders \<and>
        CACHE (snd (load_orders_from_abacus e fr w)) ''all_orders'' =
          Some (get_mock_orders,
                clock e (now_calls (snd (load_orders_from_abacus e fr w)) - 1))) \<and>
   truthy (fst (load_orders_from_abacus e fr w)) \<and>
   (reachable e w \<longrightarrow> usable (fst (load_orders_from_abacus e fr w)))"
proof (intro conjI impI)
  show "(\<exists>err. fst (fetch_orders e w) = Inl err) = source_failed (source e (fetch_calls w))"
    by (rule fetch_orders_raises)
  show "fst (fetch_or_mock e w) = get_mock_orders"
    if "source_failed (source e (fetch_calls w))"
    using that by (simp add: fetch_or_mock_fst orders_from_failed)
  show "fst (load_orders_from_abacus e fr w) = get_mock_orders"
    if "source_failed (source e (fetch_calls w)) \<and>
        (fr \<or> \<not> truthy (fst (get_from_cache e ''all_orders'' True w)))"
    using that load_miss_failed(1) by blast
  show "CACHE (snd (load_orders_from_abacus e fr w)) ''all_orders'' =
          Some (get_mock_orders,
                clock e (now_calls (snd (load_orders_from_abacus e fr w)) - 1))"
    if "source_failed (source e (fetch_calls w)) \<and>
        (fr \<or> \<not> truthy (fst (get_from_cache e ''all_orders'' True w)))"
    using that load_miss_failed(2) by blast
  show "truthy (fst (load_orders_from_abacus e fr w))"
    by (rule load_truthy)
  show "usable (fst (load_orders_from_abacus e fr w))" if "reachable e w"
    using that by (simp add: reachable_inv load_usable)
qed

text \<open>
  With the Record Source down and an empty cache, a forced and an unforced load both
  return the mock set and leave it in the cache, stamped with the first clock reading.
\<close>

theorem load_orders_never_propagates_witness:
  "source_failed (source env_down (fetch_calls initial_world)) \<and>
   \<not> truthy (fst (get_from_cache env_down ''all_orders'' True initial_world)) \<and>
   reachable env_down initial_world \<and>
   fst (load_orders_from_abacus env_down False initial_world) = get_mock_orders \<and>
   CACHE (snd (load_orders_from_abacus env_down False initial_world)) ''all_orders'' =
     Some (get_mock_orders, 0) \<and>
   fst (load_orders_from_abacus env_down True initial_world) = get_mock_orders \<and>
   usable (fst (load_orders_from_abacus env_down True initial_world))"
proof -
  have failed: "source_failed (source env_down (fetch_calls initial_world))"
    by (simp add: source_failed_def env_down_def)
  have miss: "\<not> truthy (fst (get_from_cache env_down ''all_orders'' True initial_world))"
    by (simp add: get_from_cache_def initial_world_def)
  have calls: "now_calls (snd (load_orders_from_abacus env_down False initial_world)) = 1"
    using miss
    by (simp add: load_miss fetch_or_mock_now_calls get_from_cache_now_calls)
      (simp add: initial_world_def)
  have zero: "clock env_down 0 = 0"
    by (simp add: env_down_def)
  show ?thesis
    using load_orders_never_propagates [of env_down initial_world False]
      load_orders_never_propagates [of env_down initial_world True]
      failed miss reachable.start [of env_down] calls zero
    by (simp add: usable_mock)
qed

section \<open>The entry under all_orders is never empty\<close>

lemma py_len_mock: "py_len get_mock_orders = Inr 4"
  by (simp add: get_mock_orders_def)

lemma inv_entry_usable:
  assumes "all_orders_inv e w" and "CACHE w ''all_orders'' = Some (v, t)"
  shows "usable v \<and> (v = get_mock_orders \<or> v \<in> set (upstream_results e (fetch_calls w)))"
  using assms usable_mock usable_upstream
  by (auto simp add: all_orders_inv_def)

lemma load_leaves_entry:
  "\<exists>v t. CACHE (snd (load_orders_from_abacus e fr w)) ''all_orders'' = Some (v, t)"
proof (cases "fr \<or> \<not> truthy (fst (get_from_cache e ''all_orders'' True w))")
  case True
  then show ?thesis
    by (simp add: load_miss fetch_or_mock_CACHE)
next
  case False
  then have "truthy (fst (get_from_cache e ''all_orders'' True w))" and "\<not> fr"
    by simp_all
  then show ?thesis
    by (cases "CACHE w ''all_orders''")
      (auto simp add: load_hit get_from_cache_CACHE get_from_cache_value)
qed

text \<open>
  C10. In every state the process can reach (from the empty cache, by any sequence of
  requests), the entry under \<open>"all_orders"\<close>, when there is one, is a list with at least
  one element: the mock set, whose length is 4, or a non-empty result returned by the
  Record Source so far. Hence \<open>load_orders_from_abacus\<close> returns a non-empty list for
  either value of \<open>force_refresh\<close>, and the entry it leaves in the cache is a non-empty
  list as well.
\<close>

theorem all_orders_entry_never_empty:
  "py_len get_mock_orders = Inr 4 \<and>
   (reachable e w \<longrightarrow>
     (case CACHE w ''all_orders'' of
        None \<Rightarrow> True
      | Some (v, t) \<Rightarrow>
          usable v \<and>
          (v = get_mock_orders \<or> v \<in> set (upstream_results e (fetch_calls w)))) \<and>
     usable (fst (load_orders_from_abacus e fr w)) \<and>
     (case CACHE (snd (load_orders_from_abacus e fr w)) ''all_orders'' of
        None \<Rightarrow> False
      | Some (v, t) \<Rightarrow> usable v))"
proof (intro conjI impI)
  show "py_len get_mock_orders = Inr 4"
    by (rule py_len_mock)
next
  assume r: "reachable e w"
  then have i: "all_orders_inv e w"
    by (rule reachable_inv)
  show "case CACHE w ''all_orders'' of
          None \<Rightarrow> True
        | Some (v, t) \<Rightarrow>
            usable v \<and>
            (v = get_mock_orders \<or> v \<in> set (upstream_results e (fetch_calls w)))"
    using inv_entry_usable [OF i] by (simp split: option.splits)
  show "usable (fst (load_orders_from_abacus e fr w))"
    using i by (rule load_usable)
  have i': "all_orders_inv e (snd (load_orders_from_abacus e fr w))"
    using i by (rule inv_load)
  obtain v t where
    c: "CACHE (snd (load_orders_from_abacus e fr w)) ''all_orders'' = Some (v, t)"
    using load_leaves_entry by blast
  show "case CACHE (snd (load_orders_from_abacus e fr w)) ''all_orders'' of
          None \<Rightarrow> False
        | Some (v, t) \<Rightarrow> usable v"
    using inv_entry_usable [OF i' c] by (simp add: c)
qed

text \<open>
  After one request for all orders against a Record Source that delivers the two sample
  orders, the cache holds exactly those, and the next load returns a non-empty list.
\<close>

theorem all_orders_entry_never_empty_witness:
  "reachable env_up (snd (get_all_orders env_up False initial_world)) \<and>
   CACHE (snd (get_all_orders env_up False initial_world)) ''all_orders'' =
     Some (PList sample_orders, 0) \<and>
   usable (PList sample_orders) \<and>
   usable (fst (load_orders_from_abacus env_up True
                  (snd (get_all_orders env_up False initial_world))))"
proof -
  have r: "reachable env_up (snd (get_all_orders env_up False initial_world))"
    by (rule reachable.all_orders [OF reachable.start])
  have c: "CACHE (snd (get_all_orders env_up False initial_world)) ''all_orders'' =
             Some (PList sample_orders, 0)"
    by (simp add: get_all_orders_def load_orders_from_abacus_def get_from_cache_def
        fetch_or_mock_def fetch_orders_def set_cache_def datetime_now_def
        initial_world_def env_up_def sample_orders_def)
  show ?thesis
    using all_orders_entry_never_empty
      [of env_up "snd (get_all_orders env_up False initial_world)" True] r c
    by simp
qed

section \<open>Fallback when the Record Source is down\<close>

lemma upstream_results_failed:
  "\<forall>n. source_failed (source e n) \<Longrightarrow> upstream_results e k = []"
  by (auto simp add: upstream_results_def source_failed_def split: fetch_result.splits)

lemma snd_get_all_orders:
  "snd (get_all_orders e fr w) = snd (load_orders_from_abacus e fr w)"
  by (simp add: get_all_orders_def case_prod_unfold)

lemma reachable_load:
  "reachable e w \<Longrightarrow> reachable e (snd (load_orders_from_abacus e fr w))"
  using reachable.all_orders [of e w fr] by (simp add: snd_get_all_orders)

lemma load_mock_when_down:
  assumes down: "\<forall>n. source_failed (source e n)" and inv: "all_orders_inv e w"
  shows "fst (load_orders_from_abacus e fr w) = get_mock_orders"
proof (cases "fr \<or> \<not> truthy (fst (get_from_cache e ''all_orders'' True w))")
  case True
  then show ?thesis
    using down load_miss_failed(1) by blast
next
  case False
  then have hit: "\<not> fr" "truthy (fst (get_from_cache e ''all_orders'' True w))"
    by simp_all
  then obtain v t where c: "CACHE w ''all_orders'' = Some (v, t)"
    and v: "fst (get_from_cache e ''all_orders'' True w) = v"
    by (cases "CACHE w ''all_orders''")
      (auto simp add: get_from_cache_value split: if_splits)
  have "v = get_mock_orders"
    using inv c upstream_results_failed [OF down]
    by (simp add: all_orders_inv_def)
  then show ?thesis
    using hit v by (simp add: load_hit)
qed

lemma load_served_from_cache:
  assumes "CACHE w ''all_orders'' = Some (v, t)" and "truthy v"
    and "clock e (now_calls w) - t < 120 * 1000000"
  shows "fetch_calls (snd (load_orders_from_abacus e False w)) = fetch_calls w"
proof -
  have "fst (get_from_cache e ''all_orders'' True w) = v"
    using assms(1,3) by (simp add: get_from_cache_value)
  then show ?thesis
    using assms(2) by (simp add: load_hit get_from_cache_fetch_calls)
qed

lemma mock_first_order:
  "\<exists>first rest. get_mock_orders = PList (first # rest) \<and>
     py_getitem first ''id'' = Inr (PStr ''ORD-2025-001'') \<and>
     py_getitem first ''status'' = Inr (PStr ''out-for-delivery'')"
  by (simp add: get_mock_orders_def)

text \<open>
  C6. Suppose every call of the Record Source fails (raises, or delivers nothing), and
  take any state the process can reach. Then two consecutive calls of
  \<open>load_orders_from_abacus(False)\<close> both return the mock set. When the second call reads
  the clock less than 120 seconds after the entry was stored, it is answered from the
  cache: the Record Source is not asked again. The mock set is a fixed value: its first
  order has id \<open>ORD-2025-001\<close> and status \<open>out-for-delivery\<close>.
\<close>

theorem idempotent_fallback:
  "((\<forall>n. source_failed (source e n)) \<and> reachable e w \<longrightarrow>
      fst (load_orders_from_abacus e False w) = get_mock_orders \<and>
      fst (load_orders_from_abacus e False (snd (load_orders_from_abacus e False w))) =
        get_mock_orders \<and>
      (\<forall>t. CACHE (snd (load_orders_from_abacus e False w)) ''all_orders'' =
              Some (get_mock_orders, t) \<and>
            clock e (now_calls (snd (load_orders_from_abacus e False w))) - t
              < 120 * 1000000 \<longrightarrow>
            fetch_calls
              (snd (load_orders_from_abacus e False (snd (load_orders_from_abacus e False w))))
              = fetch_calls (snd (load_orders_from_abacus e False w)))) \<and>
   (\<exists>first rest. get_mock_orders = PList (first # rest) \<and>
      py_getitem first ''id'' = Inr (PStr ''ORD-2025-001'') \<and>
      py_getitem first ''status'' = Inr (PStr ''out-for-delivery''))"
proof (intro conjI impI allI)
  assume h: "(\<forall>n. source_failed (source e n)) \<and> reachable e w"
  then have down: "\<forall>n. source_failed (source e n)" and r: "reachable e w"
    by simp_all
  show "fst (load_orders_from_abacus e False w) = get_mock_orders"
    using down reachable_inv [OF r] by (rule load_mock_when_down)
  show "fst (load_orders_from_abacus e False (snd (load_orders_from_abacus e False w))) =
          get_mock_orders"
    using down reachable_inv [OF reachable_load [OF r]] by (rule load_mock_when_down)
next
  fix t
  assume "CACHE (snd (load_orders_from_abacus e False w)) ''all_orders'' =
            Some (get_mock_orders, t) \<and>
          clock e (now_calls (snd (load_orders_from_abacus e False w))) - t < 120 * 1000000"
  then show "fetch_calls
      (snd (load_orders_from_abacus e False (snd (load_orders_from_abacus e False w))))
      = fetch_calls (snd (load_orders_from_abacus e False w))"
    using load_served_from_cache [of _ get_mock_orders t e] truthy_mock by blast
next
  show "\<exists>first rest. get_mock_orders = PList (first # rest) \<and>
      py_getitem first ''id'' = Inr (PStr ''ORD-2025-001'') \<and>
      py_getitem first ''status'' = Inr (PStr ''out-for-delivery'')"
    by (rule mock_first_order)
qed

text \<open>
  From the empty cache, with the Record Source down and one second between two clock
  readings: both calls return the mock set, and the Record Source is asked once.
\<close>

theorem idempotent_fallback_witness:
  "(\<forall>n. source_failed (source env_down n)) \<and>
   reachable env_down initial_world \<and>
   CACHE (snd (load_orders_from_abacus env_down False initial_world)) ''all_orders'' =
     Some (get_mock_orders, 0) \<and>
   clock env_down (now_calls (snd (load_orders_from_abacus env_down False initial_world))) - 0
     < 120 * 1000000 \<and>
   fst (load_orders_from_abacus env_down False initial_world) = get_mock_orders \<and>
   fst (load_orders_from_abacus env_down False
          (snd (load_orders_from_abacus env_down False initial_world))) = get_mock_orders \<and>
   fetch_calls (snd (load_orders_from_abacus env_down False
          (snd (load_orders_from_abacus env_down False initial_world)))) = 1"
proof -
  have down: "\<forall>n. source_failed (source env_down n)"
    by (simp add: source_failed_def env_down_def)
  have w1: "load_orders_from_abacus env_down False initial_world =
              fetch_or_mock env_down initial_world"
    by (simp add: load_orders_from_abacus_def get_from_cache_def initial_world_def)
  have c: "CACHE (snd (load_orders_from_abacus env_down False initial_world)) ''all_orders'' =
             Some (get_mock_orders, 0)"
    using down
    by (simp add: w1 fetch_or_mock_CACHE orders_from_failed)
      (simp add: initial_world_def env_down_def)
  have n: "now_calls (snd (load_orders_from_abacus env_down False initial_world)) = 1"
    by (simp add: w1 fetch_or_mock_now_calls) (simp add: initial_world_def)
  have f: "fetch_calls (snd (load_orders_from_abacus env_down False initial_world)) = 1"
    by (simp add: w1 fetch_or_mock_fetch_calls) (simp add: initial_world_def)
  have fresh: "clock env_down 1 - 0 < 120 * 1000000"
    by (simp add: env_down_def)
  show ?thesis
    using idempotent_fallback [of env_down initial_world] down
      reachable.start [of env_down] c n f fresh
    by simp
qed

section \<open>Properties of the comprehensions\<close>


lemma select_where_total:
  "\<forall>x\<in>set xs. \<not> isl (cond x) \<Longrightarrow>
     select_where cond xs = Inr (filter (\<lambda>x. cond x = Inr True) xs)"
  by (induction xs) (auto split: sum.splits)

lemma select_where_cong:
  "\<forall>x\<in>set xs. cond x = cond' x \<Longrightarrow> select_where cond xs = select_where cond' xs"
  by (induction xs) (auto split: sum.splits)

lemma status_is_True: "(status_is wanted order = Inr True) = has_status wanted order"
  by (auto simp add: status_is_def has_status_def split: sum.splits)

lemma status_is_total:
  "\<not> isl (py_getitem order ''status'') \<Longrightarrow> \<not> isl (status_is wanted order)"
  by (cases "py_getitem order ''status''") (simp_all add: status_is_def)


lemma count_status_total:
  "\<forall>order\<in>set os. \<not> isl (py_getitem order ''status'') \<Longrightarrow>
     count_status wanted (PList os) = Inr (int (length (filter (has_status wanted) os)))"
  by (simp add: count_status_def select_where_total status_is_total status_is_True)

section \<open>Properties of the filtered views\<close>

lemma filtered_view_hit:
  "answered_from_cache e key fr w \<Longrightarrow>
     filtered_view e label field key wanted fr w =
       (\<lparr>body = fst (get_from_cache e key True w), status = 200\<rparr>,
        snd (get_from_cache e key True w))"
  by (simp add: filtered_view_def answered_from_cache_def case_prod_unfold)

lemma filtered_view_miss:
  "\<not> answered_from_cache e key fr w \<Longrightarrow>
     filtered_view e label field key wanted fr w =
       bundle_or_error e label field key wanted fr (before_derivation e key fr w)"
  by (auto simp add: filtered_view_def answered_from_cache_def before_derivation_def
      case_prod_unfold)

lemma bundle_or_error_ok:
  "fst (derive_bundle e label field key wanted fr w) = Inr b \<Longrightarrow>
     fst (bundle_or_error e label field key wanted fr w) = \<lparr>body = b, status = 200\<rparr>"
  by (cases "derive_bundle e label field key wanted fr w") (simp add: bundle_or_error_def)

lemma bundle_or_error_err:
  "fst (derive_bundle e label field key wanted fr w) = Inl err \<Longrightarrow>
     fst (bundle_or_error e label field key wanted fr w) =
       \<lparr>body = PDict [
          (label, PStr wanted),
          (''orders'', PList []),
          (''total_orders'', PInt 0),
          (''delivered_orders'', PInt 0),
          (''last_updated'',
             PStr (isoformat e
               (clock e (now_calls (snd (derive_bundle e label field key wanted fr w)))))),
          (''error'', PStr (str_exn err))],
        status = 500\<rparr>"
  by (cases "derive_bundle e label field key wanted fr w")
    (simp add: bundle_or_error_def datetime_now_def)


lemma derive_bundle_fetch_calls:
  "fetch_calls (snd (derive_bundle e label field key wanted fr w)) =
     fetch_calls (snd (load_orders_from_abacus e fr w))"
  by (simp add: derive_bundle_def case_prod_unfold datetime_now_def set_cache_fetch_calls
      Let_def split: sum.splits)

lemma bundle_or_error_fetch_calls:
  "fetch_calls (snd (bundle_or_error e label field key wanted fr w)) =
     fetch_calls (snd (load_orders_from_abacus e fr w))"
  using derive_bundle_fetch_calls [of e label field key wanted fr w]
  by (cases "derive_bundle e label field key wanted fr w")
    (auto simp add: bundle_or_error_def datetime_now_def split: sum.splits)

section \<open>Statistics\<close>

lemma stats_counts_total:
  "\<forall>order\<in>set os. \<not> isl (py_getitem order ''status'') \<Longrightarrow>
     stats_counts (PList os) =
       Inr [(''total_orders'', PInt (int (length os))),
            (''delivered'', PInt (int (length (filter (has_status ''delivered'') os)))),
            (''in_process'', PInt (int (length (filter (has_status ''in-process'') os)))),
            (''in_route'', PInt (int (length (filter (has_status ''in-route'') os)))),
            (''out_for_delivery'',
               PInt (int (length (filter (has_status ''out-for-delivery'') os)))),
            (''cancelled'', PInt (int (length (filter (has_status ''cancelled'') os))))]"
  by (simp add: stats_counts_def exn_bind_def count_status_total)

lemma stats_counts_mock:
  "stats_counts get_mock_orders =
     Inr [(''total_orders'', PInt 4), (''delivered'', PInt 1), (''in_process'', PInt 1),
          (''in_route'', PInt 1), (''out_for_delivery'', PInt 1), (''cancelled'', PInt 0)]"
  by code_simp

lemma get_stats_body:
  "stats_counts (fst (load_orders_from_abacus e fr w)) = Inr counts \<Longrightarrow>
     fst (get_stats e fr w) =
       Inr \<lparr>body = PDict (counts @
               [(''last_updated'',
                 PStr (isoformat e (clock e (now_calls (snd (load_orders_from_abacus e fr w))))))]),
            status = 200\<rparr>"
  by (simp add: get_stats_def case_prod_unfold datetime_now_def)

lemma get_stats_CACHE:
  "CACHE (snd (get_stats e fr w)) = CACHE (snd (load_orders_from_abacus e fr w))"
  by (simp add: get_stats_def case_prod_unfold datetime_now_def split: sum.splits)

lemma get_stats_link:
  "fst (get_stats e fr w) =
     (case stats_counts (fst (load_orders_from_abacus e fr w)) of
        Inl err \<Rightarrow> Inl err
      | Inr counts \<Rightarrow>
          Inr \<lparr>body = PDict (counts @
                  [(''last_updated'',
                    PStr (isoformat e
                      (clock e (now_calls (snd (load_orders_from_abacus e fr w))))))]),
               status = 200\<rparr>)"
  by (simp add: get_stats_def case_prod_unfold datetime_now_def split: sum.splits)

lemma get_stats_counts:
  assumes "fst (load_orders_from_abacus e fr w) = PList os"
    and "\<forall>order\<in>set os. \<not> isl (py_getitem order ''status'')"
  shows "fst (get_stats e fr w) =
     Inr \<lparr>body = PDict [
            (''total_orders'', PInt (int (length os))),
            (''delivered'', PInt (int (length (filter (has_status ''delivered'') os)))),
            (''in_process'', PInt (int (length (filter (has_status ''in-process'') os)))),
            (''in_route'', PInt (int (length (filter (has_status ''in-route'') os)))),
            (''out_for_delivery'',
               PInt (int (length (filter (has_status ''out-for-delivery'') os)))),
            (''cancelled'', PInt (int (length (filter (has_status ''cancelled'') os)))),
            (''last_updated'',
               PStr (isoformat e
                 (clock e (now_calls (snd (load_orders_from_abacus e fr w))))))],
          status = 200\<rparr>"
  by (simp add: get_stats_link assms(1) stats_counts_total [OF assms(2)])

text \<open>
  C9. The statistics are counted on the full order set as \<open>load_orders_from_abacus\<close>
  returns it: the endpoint answers with the counts of that value and a timestamp (status
  200), or raises what the counting raises. On a list of orders that all have a
  \<open>status\<close> field, the counts are the length of the list and, for each of the five
  status values, the number of orders whose status is that value; this is what the
  endpoint answers whenever the load returns such a list. On the mock set the counts
  are 4, 1, 1, 1, 1 and 0, and so is the answer of the endpoint when the load returns
  the mock set. The endpoint stores nothing in the cache beyond what the load stores.
\<close>

theorem stats_counted_from_orders:
  "((\<forall>order\<in>set os. \<not> isl (py_getitem order ''status'')) \<longrightarrow>
      stats_counts (PList os) =
        Inr [(''total_orders'', PInt (int (length os))),
             (''delivered'', PInt (int (length (filter (has_status ''delivered'') os)))),
             (''in_process'', PInt (int (length (filter (has_status ''in-process'') os)))),
             (''in_route'', PInt (int (length (filter (has_status ''in-route'') os)))),
             (''out_for_delivery'',
                PInt (int (length (filter (has_status ''out-for-delivery'') os)))),
             (''cancelled'', PInt (int (length (filter (has_status ''cancelled'') os))))]) \<and>
   stats_counts get_mock_orders =
     Inr [(''total_orders'', PInt 4), (''delivered'', PInt 1), (''in_process'', PInt 1),
          (''in_route'', PInt 1), (''out_for_delivery'', PInt 1), (''cancelled'', PInt 0)] \<and>
   (fst (load_orders_from_abacus e fr w) = get_mock_orders \<longrightarrow>
      (\<exists>t. fst (get_stats e fr w) =
         Inr \<lparr>body = PDict [(''total_orders'', PInt 4), (''delivered'', PInt 1),
                            (''in_process'', PInt 1), (''in_route'', PInt 1),
                            (''out_for_delivery'', PInt 1), (''cancelled'', PInt 0),
                            (''last_updated'', PStr (isoformat e t))],
              status = 200\<rparr>)) \<and>
   CACHE (snd (get_stats e fr w)) = CACHE (snd (load_orders_from_abacus e fr w)) \<and>
   fst (get_stats e fr w) =
     (case stats_counts (fst (load_orders_from_abacus e fr w)) of
        Inl err \<Rightarrow> Inl err
      | Inr counts \<Rightarrow>
          Inr \<lparr>body = PDict (counts @
                  [(''last_updated'',
                    PStr (isoformat e
                      (clock e (now_calls (snd (load_orders_from_abacus e fr w))))))]),
               status = 200\<rparr>) \<and>
   (fst (load_orders_from_abacus e fr w) = PList os \<and>
    (\<forall>order\<in>set os. \<not> isl (py_getitem order ''status'')) \<longrightarrow>
      fst (get_stats e fr w) =
        Inr \<lparr>body = PDict [
               (''total_orders'', PInt (int (length os))),
               (''delivered'', PInt (int (length (filter (has_status ''delivered'') os)))),
               (''in_process'', PInt (int (length (filter (has_status ''in-process'') os)))),
               (''in_route'', PInt (int (length (filter (has_status ''in-route'') os)))),
               (''out_for_delivery'',
                  PInt (int (length (filter (has_status ''out-for-delivery'') os)))),
               (''cancelled'', PInt (int (length (filter (has_status ''cancelled'') os)))),
               (''last_updated'',
                  PStr (isoformat e
                    (clock e (now_calls (snd (load_orders_from_abacus e fr w))))))],
             status = 200\<rparr>)"
proof (intro conjI impI)
  assume "\<forall>order\<in>set os. \<not> isl (py_getitem order ''status'')"
  then show "stats_counts (PList os) =
        Inr [(''total_orders'', PInt (int (length os))),
             (''delivered'', PInt (int (length (filter (has_status ''delivered'') os)))),
             (''in_process'', PInt (int (length (filter (has_status ''in-process'') os)))),
             (''in_route'', PInt (int (length (filter (has_status ''in-route'') os)))),
             (''out_for_delivery'',
                PInt (int (length (filter (has_status ''out-for-delivery'') os)))),
             (''cancelled'', PInt (int (length (filter (has_status ''cancelled'') os))))]"
    by (rule stats_counts_total)
next
  show "stats_counts get_mock_orders =
     Inr [(''total_orders'', PInt 4), (''delivered'', PInt 1), (''in_process'', PInt 1),
          (''in_route'', PInt 1), (''out_for_delivery'', PInt 1), (''cancelled'', PInt 0)]"
    by (rule stats_counts_mock)
next
  assume "fst (load_orders_from_abacus e fr w) = get_mock_orders"
  then have "stats_counts (fst (load_orders_from_abacus e fr w)) =
     Inr [(''total_orders'', PInt 4), (''delivered'', PInt 1), (''in_process'', PInt 1),
          (''in_route'', PInt 1), (''out_for_delivery'', PInt 1), (''cancelled'', PInt 0)]"
    by (simp add: stats_counts_mock)
  from get_stats_body [OF this]
  show "\<exists>t. fst (get_stats e fr w) =
         Inr \<lparr>body = PDict [(''total_orders'', PInt 4), (''delivered'', PInt 1),
                            (''in_process'', PInt 1), (''in_route'', PInt 1),
                            (''out_for_delivery'', PInt 1), (''cancelled'', PInt 0),
                            (''last_updated'', PStr (isoformat e t))],
              status = 200\<rparr>"
    by auto
next
  show "CACHE (snd (get_stats e fr w)) = CACHE (snd (load_orders_from_abacus e fr w))"
    by (rule get_stats_CACHE)
next
  show "fst (get_stats e fr w) =
     (case stats_counts (fst (load_orders_from_abacus e fr w)) of
        Inl err \<Rightarrow> Inl err
      | Inr counts \<Rightarrow>
          Inr \<lparr>body = PDict (counts @
                  [(''last_updated'',
                    PStr (isoformat e
                      (clock e (now_calls (snd (load_orders_from_abacus e fr w))))))]),
               status = 200\<rparr>)"
    by (rule get_stats_link)
next
  assume "fst (load_orders_from_abacus e fr w) = PList os \<and>
    (\<forall>order\<in>set os. \<not> isl (py_getitem order ''status''))"
  then show "fst (get_stats e fr w) =
        Inr \<lparr>body = PDict [
               (''total_orders'', PInt (int (length os))),
               (''delivered'', PInt (int (length (filter (has_status ''delivered'') os)))),
               (''in_process'', PInt (int (length (filter (has_status ''in-process'') os)))),
               (''in_route'', PInt (int (length (filter (has_status ''in-route'') os)))),
               (''out_for_delivery'',
                  PInt (int (length (filter (has_status ''out-for-delivery'') os)))),
               (''cancelled'', PInt (int (length (filter (has_status ''cancelled'') os)))),
               (''last_updated'',
                  PStr (isoformat e
                    (clock e (now_calls (snd (load_orders_from_abacus e fr w))))))],
             status = 200\<rparr>"
    by (elim conjE) (rule get_stats_counts)
qed

text \<open>
  On the two sample orders (one delivered, one in route), at the endpoint when the
  Record Source delivers them, and at the endpoint when the Record Source is down and
  the cache is empty.
\<close>

theorem stats_counted_from_orders_witness:
  "stats_counts (PList sample_orders) =
     Inr [(''total_orders'', PInt 2), (''delivered'', PInt 1), (''in_process'', PInt 0),
          (''in_route'', PInt 1), (''out_for_delivery'', PInt 0), (''cancelled'', PInt 0)] \<and>
   fst (load_orders_from_abacus env_up False initial_world) = PList sample_orders \<and>
   fst (get_stats env_up False initial_world) =
     Inr \<lparr>body = PDict [(''total_orders'', PInt 2), (''delivered'', PInt 1),
                        (''in_process'', PInt 0), (''in_route'', PInt 1),
                        (''out_for_delivery'', PInt 0), (''cancelled'', PInt 0),
                        (''last_updated'', PStr ''now'')],
          status = 200\<rparr> \<and>
   fst (load_orders_from_abacus env_down False initial_world) = get_mock_orders \<and>
   fst (get_stats env_down False initial_world) =
     Inr \<lparr>body = PDict [(''total_orders'', PInt 4), (''delivered'', PInt 1),
                        (''in_process'', PInt 1), (''in_route'', PInt 1),
                        (''out_for_delivery'', PInt 1), (''cancelled'', PInt 0),
                        (''last_updated'', PStr ''now'')],
          status = 200\<rparr>"
proof -
  have l: "fst (load_orders_from_abacus env_down False initial_world) = get_mock_orders"
    by (simp add: load_orders_from_abacus_def get_from_cache_def initial_world_def
        fetch_or_mock_fst orders_from_def env_down_def)
  have u: "fst (load_orders_from_abacus env_up False initial_world) = PList sample_orders"
    by (simp add: load_orders_from_abacus_def get_from_cache_def initial_world_def
        fetch_or_mock_fst orders_from_def env_up_def sample_orders_def)
  have iso: "isoformat env_down = (\<lambda>t. ''now'')" "isoformat env_up = (\<lambda>t. ''now'')"
    by (simp_all add: env_down_def env_up_def)
  have wf: "\<forall>order\<in>set sample_orders. \<not> isl (py_getitem order ''status'')"
    by (simp add: sample_orders_def)
  have counts: "length (filter (has_status ''delivered'') sample_orders) = 1"
    "length (filter (has_status ''in-process'') sample_orders) = 0"
    "length (filter (has_status ''in-route'') sample_orders) = 1"
    "length (filter (has_status ''out-for-delivery'') sample_orders) = 0"
    "length (filter (has_status ''cancelled'') sample_orders) = 0"
    "length sample_orders = 2"
    by (simp_all add: sample_orders_def has_status_def)
  show ?thesis
    using stats_counted_from_orders
        [where e = env_down and fr = False and w = initial_world and os = sample_orders]
      stats_counted_from_orders
        [where e = env_up and fr = False and w = initial_world and os = sample_orders]
      wf u l
    by (simp add: counts iso)
qed

section \<open>The booth filter ignores letter case\<close>














section \<open>A forced refresh goes through both cache layers\<close>

lemma load_forced: "load_orders_from_abacus e True w = fetch_or_mock e w"
  by (simp add: load_orders_from_abacus_def)

lemma derive_bundle_cong:
  assumes "fst (load_orders_from_abacus e fr w) = fst (load_orders_from_abacus e fr w')"
    and "now_calls (snd (load_orders_from_abacus e fr w)) =
         now_calls (snd (load_orders_from_abacus e fr w'))"
  shows "fst (derive_bundle e label field key wanted fr w) =
         fst (derive_bundle e label field key wanted fr w')"
    and "now_calls (snd (derive_bundle e label field key wanted fr w)) =
         now_calls (snd (derive_bundle e label field key wanted fr w'))"
  using assms
  by (simp_all add: derive_bundle_def case_prod_unfold Let_def datetime_now_def
      set_cache_now_calls split: sum.splits)

lemma bundle_or_error_cong:
  assumes "fst (load_orders_from_abacus e fr w) = fst (load_orders_from_abacus e fr w')"
    and "now_calls (snd (load_orders_from_abacus e fr w)) =
         now_calls (snd (load_orders_from_abacus e fr w'))"
  shows "fst (bundle_or_error e label field key wanted fr w) =
         fst (bundle_or_error e label field key wanted fr w')"
proof (cases "fst (derive_bundle e label field key wanted fr w)")
  case (Inl err)
  moreover from Inl have "fst (derive_bundle e label field key wanted fr w') = Inl err"
    using derive_bundle_cong(1) [OF assms] by simp
  ultimately show ?thesis
    using derive_bundle_cong(2) [OF assms] by (simp add: bundle_or_error_err)
next
  case (Inr res)
  moreover from Inr have "fst (derive_bundle e label field key wanted fr w') = Inr res"
    using derive_bundle_cong(1) [OF assms] by simp
  ultimately show ?thesis
    by (simp add: bundle_or_error_ok)
qed

lemma forced_view_ignores_cache:
  "fst (filtered_view e label field key wanted True (w\<lparr>CACHE := c\<rparr>)) =
   fst (filtered_view e label field key wanted True w)"
proof -
  have "fst (bundle_or_error e label field key wanted True (w\<lparr>CACHE := c\<rparr>)) =
        fst (bundle_or_error e label field key wanted True w)"
    by (rule bundle_or_error_cong)
      (simp_all add: load_forced fetch_or_mock_fst fetch_or_mock_now_calls)
  then show ?thesis
    by (simp add: filtered_view_def)
qed

lemma view_fetch_calls:
  "fetch_calls (snd (filtered_view e label field key wanted fr w)) =
     (if answered_from_cache e key fr w then fetch_calls w
      else fetch_calls (snd (load_orders_from_abacus e fr (before_derivation e key fr w))))"
  by (simp add: filtered_view_hit filtered_view_miss bundle_or_error_fetch_calls
      get_from_cache_fetch_calls)

text \<open>
  C5. A by-booth request with \<open>force_refresh\<close> set goes to the Record Source whatever
  the cache holds. The request is not answered from the entry of the booth; the load it
  starts does not consult the entry under \<open>"all_orders"\<close> but runs the fetch, so that the
  Record Source is called exactly once and the orders are what that call delivers (the
  mock set when it fails). The response does not depend on the contents of the cache at
  all. By contrast, a request without \<open>force_refresh\<close> that finds a fresh entry for the
  booth does not call the Record Source.
\<close>

theorem force_refresh_both_layers:
  "\<not> answered_from_cache e (''booth_'' @ b) True w \<and>
   load_orders_from_abacus e True w = fetch_or_mock e w \<and>
   fst (load_orders_from_abacus e True w) = orders_from (source e (fetch_calls w)) \<and>
   fetch_calls (snd (load_orders_from_abacus e True w)) = Suc (fetch_calls w) \<and>
   fetch_calls (snd (get_orders_by_booth e b True w)) = Suc (fetch_calls w) \<and>
   fst (get_orders_by_booth e b True (w\<lparr>CACHE := c\<rparr>)) = fst (get_orders_by_booth e b True w) \<and>
   (answered_from_cache e (''booth_'' @ b) False w \<longrightarrow>
      fetch_calls (snd (get_orders_by_booth e b False w)) = fetch_calls w)"
proof (intro conjI impI)
  show "\<not> answered_from_cache e (''booth_'' @ b) True w"
    by (simp add: answered_from_cache_def)
  show "load_orders_from_abacus e True w = fetch_or_mock e w"
    by (rule load_forced)
  show "fst (load_orders_from_abacus e True w) = orders_from (source e (fetch_calls w))"
    by (simp add: load_forced fetch_or_mock_fst)
  show "fetch_calls (snd (load_orders_from_abacus e True w)) = Suc (fetch_calls w)"
    by (simp add: load_forced fetch_or_mock_fetch_calls)
  show "fetch_calls (snd (get_orders_by_booth e b True w)) = Suc (fetch_calls w)"
    by (simp add: get_orders_by_booth_def view_fetch_calls answered_from_cache_def
        before_derivation_def load_forced fetch_or_mock_fetch_calls)
  show "fst (get_orders_by_booth e b True (w\<lparr>CACHE := c\<rparr>)) =
          fst (get_orders_by_booth e b True w)"
    by (simp add: get_orders_by_booth_def forced_view_ignores_cache)
  show "fetch_calls (snd (get_orders_by_booth e b False w)) = fetch_calls w"
    if "answered_from_cache e (''booth_'' @ b) False w"
    using that by (simp add: get_orders_by_booth_def view_fetch_calls)
qed

text \<open>
  After one request for booth \<open>B-1\<close> the cache holds fresh entries under \<open>"all_orders"\<close>
  and \<open>"booth_B-1"\<close>. A second request without \<open>force_refresh\<close> is answered from the
  cache; with \<open>force_refresh\<close> the Record Source is called a second time.
\<close>

theorem force_refresh_both_layers_witness:
  "answered_from_cache env_up (''booth_'' @ ''B-1'') False
     (snd (get_orders_by_booth env_up ''B-1'' False initial_world)) \<and>
   truthy (fst (get_from_cache env_up ''all_orders'' True
     (snd (get_orders_by_booth env_up ''B-1'' False initial_world)))) \<and>
   fetch_calls (snd (get_orders_by_booth env_up ''B-1'' False initial_world)) = 1 \<and>
   fetch_calls (snd (get_orders_by_booth env_up ''B-1'' False
     (snd (get_orders_by_booth env_up ''B-1'' False initial_world)))) = 1 \<and>
   fetch_calls (snd (get_orders_by_booth env_up ''B-1'' True
     (snd (get_orders_by_booth env_up ''B-1'' False initial_world)))) = 2"
proof -
  let ?w = "snd (get_orders_by_booth env_up ''B-1'' False initial_world)"
  have hit: "answered_from_cache env_up (''booth_'' @ ''B-1'') False ?w"
    by code_simp
  have fresh: "truthy (fst (get_from_cache env_up ''all_orders'' True ?w))"
    by code_simp
  have one: "fetch_calls ?w = 1"
    by code_simp
  show ?thesis
    using force_refresh_both_layers [of env_up "''B-1''" ?w] hit fresh one
    by simp
qed

section \<open>What the field force_refreshed reports\<close>

lemma bundle_or_error_derived:
  "fst (derive_bundle e label field key wanted fr w) = Inr b \<Longrightarrow>
     bundle_or_error e label field key wanted fr w =
       (\<lparr>body = b, status = 200\<rparr>, snd (derive_bundle e label field key wanted fr w))"
  by (cases "derive_bundle e label field key wanted fr w") (simp add: bundle_or_error_def)

lemma bundle_or_error_status:
  "status (fst (bundle_or_error e label field key wanted fr w)) = 200 \<Longrightarrow>
     \<exists>b. fst (derive_bundle e label field key wanted fr w) = Inr b"
  by (cases "fst (derive_bundle e label field key wanted fr w)")
    (simp_all add: bundle_or_error_err)

lemma derive_booth_bundle:
  assumes "fst (derive_bundle e ''booth'' field key wanted fr w) = Inr b"
  shows "py_getitem b ''force_refreshed'' = Inr (PBool fr)"
    and "truthy b"
    and "CACHE (snd (derive_bundle e ''booth'' field key wanted fr w)) key =
           Some (b, clock e (now_calls (snd (derive_bundle e ''booth'' field key wanted fr w)) - 1))"
  using assms
  by (auto simp add: derive_bundle_def case_prod_unfold Let_def datetime_now_def
      set_cache_def split: sum.splits)

lemma view_derived_flag:
  assumes "\<not> answered_from_cache e key fr w"
    and "status (fst (filtered_view e ''booth'' field key wanted fr w)) = 200"
  shows "py_getitem (body (fst (filtered_view e ''booth'' field key wanted fr w)))
           ''force_refreshed'' = Inr (PBool fr)"
    and "CACHE (snd (filtered_view e ''booth'' field key wanted fr w)) key =
           Some (body (fst (filtered_view e ''booth'' field key wanted fr w)),
                 clock e (now_calls (snd (filtered_view e ''booth'' field key wanted fr w)) - 1))"
    and "truthy (body (fst (filtered_view e ''booth'' field key wanted fr w)))"
proof -
  let ?w0 = "before_derivation e key fr w"
  have v: "filtered_view e ''booth'' field key wanted fr w =
             bundle_or_error e ''booth'' field key wanted fr ?w0"
    using assms(1) by (rule filtered_view_miss)
  obtain res where
    res: "fst (derive_bundle e ''booth'' field key wanted fr ?w0) = Inr res"
    using assms(2) bundle_or_error_status unfolding v by blast
  show "py_getitem (body (fst (filtered_view e ''booth'' field key wanted fr w)))
          ''force_refreshed'' = Inr (PBool fr)"
    using derive_booth_bundle(1) [OF res] by (simp add: v bundle_or_error_derived [OF res])
  show "CACHE (snd (filtered_view e ''booth'' field key wanted fr w)) key =
          Some (body (fst (filtered_view e ''booth'' field key wanted fr w)),
                clock e (now_calls (snd (filtered_view e ''booth'' field key wanted fr w)) - 1))"
    using derive_booth_bundle(3) [OF res] by (simp add: v bundle_or_error_derived [OF res])
  show "truthy (body (fst (filtered_view e ''booth'' field key wanted fr w)))"
    using derive_booth_bundle(2) [OF res] by (simp add: v bundle_or_error_derived [OF res])
qed

lemma view_answer_is_entry:
  assumes "answered_from_cache e key fr w"
  shows "\<exists>t. CACHE w key =
           Some (body (fst (filtered_view e label field key wanted fr w)), t)"
    and "status (fst (filtered_view e label field key wanted fr w)) = 200"
    and "CACHE (snd (filtered_view e label field key wanted fr w)) = CACHE w"
proof -
  have v: "fst (filtered_view e label field key wanted fr w) =
             \<lparr>body = fst (get_from_cache e key True w), status = 200\<rparr>"
    using assms by (simp add: filtered_view_hit)
  have "truthy (fst (get_from_cache e key True w))"
    using assms by (simp add: answered_from_cache_def)
  then show "\<exists>t. CACHE w key =
                 Some (body (fst (filtered_view e label field key wanted fr w)), t)"
    by (cases "CACHE w key") (auto simp add: v get_from_cache_value split: if_splits)
  show "status (fst (filtered_view e label field key wanted fr w)) = 200"
    by (simp add: v)
  show "CACHE (snd (filtered_view e label field key wanted fr w)) = CACHE w"
    using assms by (simp add: filtered_view_hit get_from_cache_CACHE)
qed

lemma view_flag_survives:
  assumes miss: "\<not> answered_from_cache e key fr w"
    and ok: "status (fst (filtered_view e ''booth'' field key wanted fr w)) = 200"
    and fresh:
      "clock e (now_calls (snd (filtered_view e ''booth'' field key wanted fr w))) -
       clock e (now_calls (snd (filtered_view e ''booth'' field key wanted fr w)) - 1)
         < 120 * 1000000"
  shows "answered_from_cache e key False
           (snd (filtered_view e ''booth'' field key wanted fr w))"
    and "fst (filtered_view e ''booth'' field key wanted False
                (snd (filtered_view e ''booth'' field key wanted fr w))) =
         fst (filtered_view e ''booth'' field key wanted fr w)"
    and "py_getitem
           (body (fst (filtered_view e ''booth'' field key wanted False
                    (snd (filtered_view e ''booth'' field key wanted fr w)))))
           ''force_refreshed'' = Inr (PBool fr)"
proof -
  let ?r = "fst (filtered_view e ''booth'' field key wanted fr w)"
  let ?w1 = "snd (filtered_view e ''booth'' field key wanted fr w)"
  have entry: "CACHE ?w1 key = Some (body ?r, clock e (now_calls ?w1 - 1))"
    using miss ok by (rule view_derived_flag(2))
  have got: "fst (get_from_cache e key True ?w1) = body ?r"
    using fresh by (simp add: get_from_cache_value entry)
  show hit: "answered_from_cache e key False ?w1"
    using view_derived_flag(3) [OF miss ok] by (simp add: answered_from_cache_def got)
  have "fst (filtered_view e ''booth'' field key wanted False ?w1) =
          \<lparr>body = body ?r, status = 200\<rparr>"
    using got by (simp add: filtered_view_hit [OF hit])
  then show same: "fst (filtered_view e ''booth'' field key wanted False ?w1) = ?r"
    using ok by simp
  show "py_getitem (body (fst (filtered_view e ''booth'' field key wanted False ?w1)))
          ''force_refreshed'' = Inr (PBool fr)"
    using view_derived_flag(1) [OF miss ok] by (simp only: same)
qed

text \<open>
  C3, as amended. In a by-booth bundle the field \<open>force_refreshed\<close> is the
  \<open>force_refresh\<close> flag of the request that derived the bundle. A request that derives
  its bundle reports its own flag, and stores the bundle that it returns under the key
  of the booth, stamped with its last clock reading. A request answered from the cache
  returns the stored bundle as it is, with status 200, and leaves the cache as it was.
  Hence, when a request has derived its bundle with the flag \<open>fr\<close> and a request
  without \<open>force_refresh\<close> reads the clock less than 120 seconds later, the second
  request is answered from the cache with the very answer of the first, whose field
  says \<open>fr\<close>: after a request with \<open>force_refresh\<close> it says \<open>true\<close>, although the
  second request did not bypass the cache.
\<close>

theorem force_refreshed_is_flag_of_derivation:
  "(\<not> answered_from_cache e (''booth_'' @ b) fr w \<and>
    status (fst (get_orders_by_booth e b fr w)) = 200 \<longrightarrow>
      py_getitem (body (fst (get_orders_by_booth e b fr w))) ''force_refreshed'' =
        Inr (PBool fr) \<and>
      CACHE (snd (get_orders_by_booth e b fr w)) (''booth_'' @ b) =
        Some (body (fst (get_orders_by_booth e b fr w)),
              clock e (now_calls (snd (get_orders_by_booth e b fr w)) - 1))) \<and>
   (answered_from_cache e (''booth_'' @ b) fr w \<longrightarrow>
      (\<exists>t. CACHE w (''booth_'' @ b) = Some (body (fst (get_orders_by_booth e b fr w)), t)) \<and>
      status (fst (get_orders_by_booth e b fr w)) = 200 \<and>
      CACHE (snd (get_orders_by_booth e b fr w)) = CACHE w) \<and>
   (\<not> answered_from_cache e (''booth_'' @ b) fr w \<and>
    status (fst (get_orders_by_booth e b fr w)) = 200 \<and>
    clock e (now_calls (snd (get_orders_by_booth e b fr w))) -
      clock e (now_calls (snd (get_orders_by_booth e b fr w)) - 1) < 120 * 1000000 \<longrightarrow>
      answered_from_cache e (''booth_'' @ b) False (snd (get_orders_by_booth e b fr w)) \<and>
      fst (get_orders_by_booth e b False (snd (get_orders_by_booth e b fr w))) =
        fst (get_orders_by_booth e b fr w) \<and>
      py_getitem
        (body (fst (get_orders_by_booth e b False (snd (get_orders_by_booth e b fr w)))))
        ''force_refreshed'' = Inr (PBool fr)) \<and>
   (status (fst (get_orders_by_booth e b True w)) = 200 \<and>
    clock e (now_calls (snd (get_orders_by_booth e b True w))) -
      clock e (now_calls (snd (get_orders_by_booth e b True w)) - 1) < 120 * 1000000 \<longrightarrow>
      answered_from_cache e (''booth_'' @ b) False (snd (get_orders_by_booth e b True w)) \<and>
      py_getitem
        (body (fst (get_orders_by_booth e b False (snd (get_orders_by_booth e b True w)))))
        ''force_refreshed'' = Inr (PBool True))"
proof (intro conjI impI)
  show "py_getitem (body (fst (get_orders_by_booth e b fr w))) ''force_refreshed'' =
          Inr (PBool fr)"
    if "\<not> answered_from_cache e (''booth_'' @ b) fr w \<and>
        status (fst (get_orders_by_booth e b fr w)) = 200"
    using that unfolding get_orders_by_booth_def by (elim conjE) (rule view_derived_flag(1))
  show "CACHE (snd (get_orders_by_booth e b fr w)) (''booth_'' @ b) =
          Some (body (fst (get_orders_by_booth e b fr w)),
                clock e (now_calls (snd (get_orders_by_booth e b fr w)) - 1))"
    if "\<not> answered_from_cache e (''booth_'' @ b) fr w \<and>
        status (fst (get_orders_by_booth e b fr w)) = 200"
    using that unfolding get_orders_by_booth_def by (elim conjE) (rule view_derived_flag(2))
  show "\<exists>t. CACHE w (''booth_'' @ b) = Some (body (fst (get_orders_by_booth e b fr w)), t)"
    if "answered_from_cache e (''booth_'' @ b) fr w"
    using that unfolding get_orders_by_booth_def by (rule view_answer_is_entry(1))
  show "status (fst (get_orders_by_booth e b fr w)) = 200"
    if "answered_from_cache e (''booth_'' @ b) fr w"
    using that unfolding get_orders_by_booth_def by (rule view_answer_is_entry(2))
  show "CACHE (snd (get_orders_by_booth e b fr w)) = CACHE w"
    if "answered_from_cache e (''booth_'' @ b) fr w"
    using that unfolding get_orders_by_booth_def by (rule view_answer_is_entry(3))
  show "answered_from_cache e (''booth_'' @ b) False (snd (get_orders_by_booth e b fr w))"
    if "\<not> answered_from_cache e (''booth_'' @ b) fr w \<and>
        status (fst (get_orders_by_booth e b fr w)) = 200 \<and>
        clock e (now_calls (snd (get_orders_by_booth e b fr w))) -
          clock e (now_calls (snd (get_orders_by_booth e b fr w)) - 1) < 120 * 1000000"
    using that unfolding get_orders_by_booth_def by (elim conjE) (rule view_flag_survives(1))
  show "fst (get_orders_by_booth e b False (snd (get_orders_by_booth e b fr w))) =
          fst (get_orders_by_booth e b fr w)"
    if "\<not> answered_from_cache e (''booth_'' @ b) fr w \<and>
        status (fst (get_orders_by_booth e b fr w)) = 200 \<and>
        clock e (now_calls (snd (get_orders_by_booth e b fr w))) -
          clock e (now_calls (snd (get_orders_by_booth e b fr w)) - 1) < 120 * 1000000"
    using that unfolding get_orders_by_booth_def by (elim conjE) (rule view_flag_survives(2))
  show "py_getitem
          (body (fst (get_orders_by_booth e b False (snd (get_orders_by_booth e b fr w)))))
          ''force_refreshed'' = Inr (PBool fr)"
    if "\<not> answered_from_cache e (''booth_'' @ b) fr w \<and>
        status (fst (get_orders_by_booth e b fr w)) = 200 \<and>
        clock e (now_calls (snd (get_orders_by_booth e b fr w))) -
          clock e (now_calls (snd (get_orders_by_booth e b fr w)) - 1) < 120 * 1000000"
    using that unfolding get_orders_by_booth_def by (elim conjE) (rule view_flag_survives(3))
  have forced: "\<not> answered_from_cache e (''booth_'' @ b) True w"
    by (simp add: answered_from_cache_def)
  show "answered_from_cache e (''booth_'' @ b) False (snd (get_orders_by_booth e b True w))"
    if "status (fst (get_orders_by_booth e b True w)) = 200 \<and>
        clock e (now_calls (snd (get_orders_by_booth e b True w))) -
          clock e (now_calls (snd (get_orders_by_booth e b True w)) - 1) < 120 * 1000000"
    using that forced unfolding get_orders_by_booth_def
    by (elim conjE) (rule view_flag_survives(1))
  show "py_getitem
          (body (fst (get_orders_by_booth e b False (snd (get_orders_by_booth e b True w)))))
          ''force_refreshed'' = Inr (PBool True)"
    if "status (fst (get_orders_by_booth e b True w)) = 200 \<and>
        clock e (now_calls (snd (get_orders_by_booth e b True w))) -
          clock e (now_calls (snd (get_orders_by_booth e b True w)) - 1) < 120 * 1000000"
    using that forced unfolding get_orders_by_booth_def
    by (elim conjE) (rule view_flag_survives(3))
qed

text \<open>
  With the sample Record Source, from the empty cache: a request for booth \<open>B-1\<close> with
  \<open>force_refresh\<close> derives a bundle that says \<open>true\<close>, one without it derives a bundle
  that says \<open>false\<close>; in both cases the same request without \<open>force_refresh\<close>, one
  second later, is answered from the cache with the same bundle.
\<close>

theorem force_refreshed_is_flag_of_derivation_witness:
  "\<not> answered_from_cache env_up (''booth_'' @ ''B-1'') True initial_world \<and>
   status (fst (get_orders_by_booth env_up ''B-1'' True initial_world)) = 200 \<and>
   py_getitem (body (fst (get_orders_by_booth env_up ''B-1'' True initial_world)))
     ''force_refreshed'' = Inr (PBool True) \<and>
   \<not> answered_from_cache env_up (''booth_'' @ ''B-1'') False initial_world \<and>
   status (fst (get_orders_by_booth env_up ''B-1'' False initial_world)) = 200 \<and>
   py_getitem (body (fst (get_orders_by_booth env_up ''B-1'' False initial_world)))
     ''force_refreshed'' = Inr (PBool False) \<and>
   clock env_up (now_calls (snd (get_orders_by_booth env_up ''B-1'' True initial_world))) -
     clock env_up (now_calls (snd (get_orders_by_booth env_up ''B-1'' True initial_world)) - 1)
     < 120 * 1000000 \<and>
   answered_from_cache env_up (''booth_'' @ ''B-1'') False
     (snd (get_orders_by_booth env_up ''B-1'' True initial_world)) \<and>
   py_getitem
     (body (fst (get_orders_by_booth env_up ''B-1'' False
        (snd (get_orders_by_booth env_up ''B-1'' True initial_world)))))
     ''force_refreshed'' = Inr (PBool True) \<and>
   answered_from_cache env_up (''booth_'' @ ''B-1'') False
     (snd (get_orders_by_booth env_up ''B-1'' False initial_world)) \<and>
   py_getitem
     (body (fst (get_orders_by_booth env_up ''B-1'' False
        (snd (get_orders_by_booth env_up ''B-1'' False initial_world)))))
     ''force_refreshed'' = Inr (PBool False)"
proof -
  have forced: "\<not> answered_from_cache env_up (''booth_'' @ ''B-1'') True initial_world"
    by (simp add: answered_from_cache_def)
  have miss: "\<not> answered_from_cache env_up (''booth_'' @ ''B-1'') False initial_world"
    by (simp add: answered_from_cache_def get_from_cache_def initial_world_def)
  have ok: "status (fst (get_orders_by_booth env_up ''B-1'' True initial_world)) = 200"
    "status (fst (get_orders_by_booth env_up ''B-1'' False initial_world)) = 200"
    by code_simp+
  have n: "now_calls (snd (get_orders_by_booth env_up ''B-1'' True initial_world)) = 3"
    "now_calls (snd (get_orders_by_booth env_up ''B-1'' False initial_world)) = 3"
    by code_simp+
  have fresh: "clock env_up 3 - clock env_up (3 - 1) < 120 * 1000000"
    by (simp add: env_up_def)
  show ?thesis
    using force_refreshed_is_flag_of_derivation
        [where e = env_up and b = "''B-1''" and fr = True and w = initial_world]
      force_refreshed_is_flag_of_derivation
        [where e = env_up and b = "''B-1''" and fr = False and w = initial_world]
      forced miss ok n fresh
    by simp
qed

text \<open>
  The claim as it was stated fails: with the sample Record Source, the request for booth
  \<open>B-1\<close> with \<open>force_refresh\<close> is followed one second later by the same request without
  it. The second request is answered from the cache, it did not bypass the cache, and
  its bundle says that it did.
\<close>

theorem cached_bundle_reports_earlier_flag:
  "answered_from_cache env_up (''booth_'' @ ''B-1'') False
     (snd (get_orders_by_booth env_up ''B-1'' True initial_world)) \<and>
   py_getitem
     (body (fst (get_orders_by_booth env_up ''B-1'' False
        (snd (get_orders_by_booth env_up ''B-1'' True initial_world)))))
     ''force_refreshed'' = Inr (PBool True) \<and>
   py_getitem
     (body (fst (get_orders_by_booth env_up ''B-1'' False
        (snd (get_orders_by_booth env_up ''B-1'' True initial_world)))))
     ''force_refreshed'' \<noteq> Inr (PBool False)"
  by code_simp

section \<open>Exceptions of a derivation\<close>

lemma view_error:
  assumes "\<not> answered_from_cache e key fr w"
    and "fst (derive_bundle e label field key wanted fr (before_derivation e key fr w)) =
           Inl err"
  shows "\<exists>t. fst (filtered_view e label field key wanted fr w) =
           \<lparr>body = PDict [
              (label, PStr wanted),
              (''orders'', PList []),
              (''total_orders'', PInt 0),
              (''delivered_orders'', PInt 0),
              (''last_updated'', PStr (isoformat e t)),
              (''error'', PStr (str_exn err))],
            status = 500\<rparr>"
  using bundle_or_error_err [OF assms(2)] by (auto simp add: filtered_view_miss [OF assms(1)])

lemma get_exhibitors_miss:
  "\<not> answered_from_cache e ''exhibitors'' fr w \<Longrightarrow>
     get_exhibitors e fr w = roster_or_empty e fr (before_derivation e ''exhibitors'' fr w)"
  by (auto simp add: get_exhibitors_def answered_from_cache_def before_derivation_def
      case_prod_unfold)

lemma roster_or_empty_err:
  "fst (derive_roster e fr w) = Inl err \<Longrightarrow>
     fst (roster_or_empty e fr w) = \<lparr>body = PList [], status = 500\<rparr>"
  by (cases "derive_roster e fr w") (simp add: roster_or_empty_def)

lemma stats_has_no_handler:
  "fst (get_stats env_malformed True initial_world) = Inl (KeyError ''status'')"
  by code_simp

text \<open>
  C4, as amended. In the by-booth and the by-exhibitor entry points, an exception raised
  while the bundle is derived is caught: the answer is the bundle with the requested
  booth or exhibitor, no orders, both counts zero, a timestamp, and the text of the
  exception under \<open>error\<close>, with status 500. In the roster entry point such an exception
  is caught as well; the answer is the empty list with status 500, and carries no text.
\<close>

theorem derivation_errors_are_answered:
  "(\<not> answered_from_cache e (''booth_'' @ b) fr w \<and>
    fst (derive_bundle e ''booth'' ''booth_number'' (''booth_'' @ b) b fr
           (before_derivation e (''booth_'' @ b) fr w)) = Inl err \<longrightarrow>
      (\<exists>t. fst (get_orders_by_booth e b fr w) =
         \<lparr>body = PDict [
            (''booth'', PStr b),
            (''orders'', PList []),
            (''total_orders'', PInt 0),
            (''delivered_orders'', PInt 0),
            (''last_updated'', PStr (isoformat e t)),
            (''error'', PStr (str_exn err))],
          status = 500\<rparr>)) \<and>
   (\<not> answered_from_cache e (''exhibitor_'' @ x) fr w \<and>
    fst (derive_bundle e ''exhibitor'' ''exhibitor_name'' (''exhibitor_'' @ x) x fr
           (before_derivation e (''exhibitor_'' @ x) fr w)) = Inl err \<longrightarrow>
      (\<exists>t. fst (get_orders_by_exhibitor e x fr w) =
         \<lparr>body = PDict [
            (''exhibitor'', PStr x),
            (''orders'', PList []),
            (''total_orders'', PInt 0),
            (''delivered_orders'', PInt 0),
            (''last_updated'', PStr (isoformat e t)),
            (''error'', PStr (str_exn err))],
          status = 500\<rparr>)) \<and>
   (\<not> answered_from_cache e ''exhibitors'' fr w \<and>
    fst (derive_roster e fr (before_derivation e ''exhibitors'' fr w)) = Inl err \<longrightarrow>
      fst (get_exhibitors e fr w) = \<lparr>body = PList [], status = 500\<rparr>)"
proof (intro conjI impI)
  assume "\<not> answered_from_cache e (''booth_'' @ b) fr w \<and>
    fst (derive_bundle e ''booth'' ''booth_number'' (''booth_'' @ b) b fr
           (before_derivation e (''booth_'' @ b) fr w)) = Inl err"
  then show "\<exists>t. fst (get_orders_by_booth e b fr w) =
         \<lparr>body = PDict [
            (''booth'', PStr b),
            (''orders'', PList []),
            (''total_orders'', PInt 0),
            (''delivered_orders'', PInt 0),
            (''last_updated'', PStr (isoformat e t)),
            (''error'', PStr (str_exn err))],
          status = 500\<rparr>"
    unfolding get_orders_by_booth_def by (elim conjE) (rule view_error)
next
  assume "\<not> answered_from_cache e (''exhibitor_'' @ x) fr w \<and>
    fst (derive_bundle e ''exhibitor'' ''exhibitor_name'' (''exhibitor_'' @ x) x fr
           (before_derivation e (''exhibitor_'' @ x) fr w)) = Inl err"
  then show "\<exists>t. fst (get_orders_by_exhibitor e x fr w) =
         \<lparr>body = PDict [
            (''exhibitor'', PStr x),
            (''orders'', PList []),
            (''total_orders'', PInt 0),
            (''delivered_orders'', PInt 0),
            (''last_updated'', PStr (isoformat e t)),
            (''error'', PStr (str_exn err))],
          status = 500\<rparr>"
    unfolding get_orders_by_exhibitor_def by (elim conjE) (rule view_error)
next
  assume "\<not> answered_from_cache e ''exhibitors'' fr w \<and>
    fst (derive_roster e fr (before_derivation e ''exhibitors'' fr w)) = Inl err"
  then show "fst (get_exhibitors e fr w) = \<lparr>body = PList [], status = 500\<rparr>"
    by (simp add: get_exhibitors_miss roster_or_empty_err)
qed

text \<open>
  A Record Source that delivers one record with an \<open>id\<close> and nothing else: the booth
  filter fails on the missing booth number, the exhibitor filter and the roster on the
  missing exhibitor name.
\<close>

theorem derivation_errors_are_answered_witness:
  "fst (derive_bundle env_malformed ''booth'' ''booth_number'' (''booth_'' @ ''A'') ''A'' True
          initial_world) = Inl (KeyError ''booth_number'') \<and>
   fst (get_orders_by_booth env_malformed ''A'' True initial_world) =
     \<lparr>body = PDict [
        (''booth'', PStr ''A''),
        (''orders'', PList []),
        (''total_orders'', PInt 0),
        (''delivered_orders'', PInt 0),
        (''last_updated'', PStr ''now''),
        (''error'', PStr (str_exn (KeyError ''booth_number'')))],
      status = 500\<rparr> \<and>
   fst (derive_bundle env_malformed ''exhibitor'' ''exhibitor_name'' (''exhibitor_'' @ ''Acme'')
          ''Acme'' True initial_world) = Inl (KeyError ''exhibitor_name'') \<and>
   fst (get_orders_by_exhibitor env_malformed ''Acme'' True initial_world) =
     \<lparr>body = PDict [
        (''exhibitor'', PStr ''Acme''),
        (''orders'', PList []),
        (''total_orders'', PInt 0),
        (''delivered_orders'', PInt 0),
        (''last_updated'', PStr ''now''),
        (''error'', PStr (str_exn (KeyError ''exhibitor_name'')))],
      status = 500\<rparr> \<and>
   fst (derive_roster env_malformed True initial_world) = Inl (KeyError ''exhibitor_name'') \<and>
   fst (get_exhibitors env_malformed True initial_world) = \<lparr>body = PList [], status = 500\<rparr>"
proof -
  have forced: "\<not> answered_from_cache env_malformed key True initial_world" for key
    by (simp add: answered_from_cache_def)
  have w0: "before_derivation env_malformed key True initial_world = initial_world" for key
    by (simp add: before_derivation_def)
  have booth: "fst (derive_bundle env_malformed ''booth'' ''booth_number'' (''booth_'' @ ''A'')
                      ''A'' True initial_world) = Inl (KeyError ''booth_number'')"
    by code_simp
  have exhibitor: "fst (derive_bundle env_malformed ''exhibitor'' ''exhibitor_name''
                          (''exhibitor_'' @ ''Acme'') ''Acme'' True initial_world) =
                     Inl (KeyError ''exhibitor_name'')"
    by code_simp
  have roster: "fst (derive_roster env_malformed True initial_world) =
                  Inl (KeyError ''exhibitor_name'')"
    by code_simp
  have iso: "isoformat env_malformed = (\<lambda>t. ''now'')"
    by (simp add: env_malformed_def)
  show ?thesis
    using derivation_errors_are_answered
        [of env_malformed "''A''" True initial_world "KeyError ''booth_number''" "''Acme''"]
      derivation_errors_are_answered
        [of env_malformed "''A''" True initial_world "KeyError ''exhibitor_name''" "''Acme''"]
      booth exhibitor roster
    by (simp add: forced w0 iso)
qed

text \<open>
  The claim as it was stated fails at the roster: with that Record Source the derivation
  of the roster raises, and the answer is an empty list with status 500. A list has no
  field, so the answer holds no error text.
\<close>

theorem roster_failure_has_no_error_text:
  "fst (derive_roster env_malformed True initial_world) = Inl (KeyError ''exhibitor_name'') \<and>
   fst (get_exhibitors env_malformed True initial_world) = \<lparr>body = PList [], status = 500\<rparr> \<and>
   py_getitem (body (fst (get_exhibitors env_malformed True initial_world))) ''error'' =
     Inl (TypeError ''list indices must be integers or slices, not str'')"
  by code_simp

section \<open>The exhibitor roster\<close>


























end
